theory Spec2Isabelle
  imports Main "HOL-Library.Word" "HOL-Library.Monad_Syntax"
begin

unbundle bit_operations_syntax

section \<open>Machine types\<close>

type_synonym u8 = "8 word"
type_synonym u16 = "16 word"
type_synonym u32 = "32 word"

text \<open>
  A C function of the emulator becomes a function from the machine state to
  \<open>machine option\<close>.  \<open>None\<close> stands for undefined behaviour of the C
  program: an array indexed outside its bounds, a null \<open>FILE *\<close> handed to
  stdio, a null geometry pointer dereferenced.  C \<open>int\<close> values are HOL
  integers; the conversions to \<open>uint8_t\<close>, \<open>uint16_t\<close> and
  \<open>uint32_t\<close> that the C code performs implicitly are written as
  \<open>word_of_int\<close>, so they wrap as in C.
\<close>

section \<open>sdf.c: geometry catalog\<close>

datatype sides_t = SIDES_NA | SIDES_SINGLE | SIDES_SEQUENTIAL | SIDES_INTERLEAVED

datatype density_t = DENS_NA | DENS_SINGLE | DENS_DOUBLE | DENS_QUAD

record geometry_t =
  name :: string
  sides :: sides_t
  density :: density_t
  size_in_sectors :: u16
  tracks :: u8
  sectors_per_track :: u8
  sector_size :: u16

definition geo :: "string \<Rightarrow> sides_t \<Rightarrow> density_t \<Rightarrow> u16 \<Rightarrow> u8 \<Rightarrow> u8 \<Rightarrow> u16 \<Rightarrow> geometry_t" where
  "geo n s d sz t spt ss =
     \<lparr>name = n, sides = s, density = d, size_in_sectors = sz, tracks = t,
      sectors_per_track = spt, sector_size = ss\<rparr>"

text \<open>The three tables, without their terminating all-zero entry.\<close>

definition adfs_new_formats :: "geometry_t list" where
  "adfs_new_formats =
    [geo ''Acorn ADFS F'' SIDES_INTERLEAVED DENS_QUAD 1600 80 10 1024,
     geo ''Acorn ADFS D'' SIDES_INTERLEAVED DENS_DOUBLE 800 80 5 1024]"

definition adfs_old_formats :: "geometry_t list" where
  "adfs_old_formats =
    [geo ''Acorn ADFS L'' SIDES_INTERLEAVED DENS_DOUBLE 2560 80 16 256,
     geo ''Acorn ADFS M'' SIDES_SINGLE DENS_DOUBLE 1280 80 16 256,
     geo ''Acorn ADFS S'' SIDES_SINGLE DENS_DOUBLE 640 40 16 256]"

definition dfs_formats :: "geometry_t list" where
  "dfs_formats =
    [geo ''Watford/Opus DDFS'' SIDES_INTERLEAVED DENS_DOUBLE 1440 80 18 256,
     geo ''Watford/Opus DDFS'' SIDES_SEQUENTIAL DENS_DOUBLE 1440 80 18 256,
     geo ''Watford/Opus DDFS'' SIDES_SINGLE DENS_DOUBLE 1440 80 18 256,
     geo ''Watford/Opus DDFS'' SIDES_INTERLEAVED DENS_DOUBLE 720 40 18 256,
     geo ''Watford/Opus DDFS'' SIDES_SEQUENTIAL DENS_DOUBLE 720 40 18 256,
     geo ''Watford/Opus DDFS'' SIDES_SINGLE DENS_DOUBLE 720 40 18 256,
     geo ''Solidisk DDFS'' SIDES_INTERLEAVED DENS_DOUBLE 1280 80 16 256,
     geo ''Solidisk DDFS'' SIDES_SEQUENTIAL DENS_DOUBLE 1280 80 16 256,
     geo ''Solidisk DDFS'' SIDES_SINGLE DENS_DOUBLE 1280 80 16 256,
     geo ''Solidisk DDFS'' SIDES_INTERLEAVED DENS_DOUBLE 640 40 16 256,
     geo ''Solidisk DDFS'' SIDES_SEQUENTIAL DENS_DOUBLE 640 40 16 256,
     geo ''Solidisk DDFS'' SIDES_SINGLE DENS_DOUBLE 640 40 16 256,
     geo ''Acorn DFS'' SIDES_INTERLEAVED DENS_SINGLE 800 80 10 256,
     geo ''Acorn DFS'' SIDES_SEQUENTIAL DENS_SINGLE 800 80 10 256,
     geo ''Acorn DFS'' SIDES_SINGLE DENS_SINGLE 800 80 10 256,
     geo ''Acorn DFS'' SIDES_INTERLEAVED DENS_SINGLE 400 40 10 256,
     geo ''Acorn DFS'' SIDES_SEQUENTIAL DENS_SINGLE 400 40 10 256,
     geo ''Acorn DFS'' SIDES_SINGLE DENS_SINGLE 400 40 10 256]"

text \<open>Every geometry that \<open>sdf_load\<close> can bind to a drive.\<close>

definition catalog :: "geometry_t list" where
  "catalog = adfs_new_formats @ adfs_old_formats @ dfs_formats"

section \<open>stdio streams\<close>

text \<open>
  An open stream of a disc image, as \<open>sdf_load\<close> opens it for update
  (\<open>rb+\<close>): the bytes of the file and the file position.  \<open>fseek\<close>
  may move past the end; \<open>putc\<close> there fills the gap with zero bytes;
  \<open>getc\<close> at or past the end returns \<open>EOF\<close> (-1).
\<close>

record FILE =
  contents :: "u8 list"
  pos :: nat

definition fseek_set :: "nat \<Rightarrow> FILE \<Rightarrow> FILE" where
  "fseek_set off f = f\<lparr>pos := off\<rparr>"

definition getc :: "FILE \<Rightarrow> int \<times> FILE" where
  "getc f =
     (if pos f < length (contents f)
      then (uint (contents f ! pos f), f\<lparr>pos := pos f + 1\<rparr>)
      else (-1, f))"

definition putc :: "int \<Rightarrow> FILE \<Rightarrow> FILE" where
  "putc c f =
     (let b = (word_of_int c :: u8) in
      if pos f < length (contents f)
      then f\<lparr>contents := (contents f)[pos f := b], pos := pos f + 1\<rparr>
      else f\<lparr>contents := contents f @ replicate (pos f - length (contents f)) 0 @ [b],
             pos := pos f + 1\<rparr>)"

section \<open>The machine state\<close>

datatype state_t =
    ST_IDLE | ST_NOTFOUND | ST_READSECTOR | ST_WRITESECTOR
  | ST_READ_ADDR0 | ST_READ_ADDR1 | ST_READ_ADDR2 | ST_READ_ADDR3
  | ST_READ_ADDR4 | ST_READ_ADDR5 | ST_READ_ADDR6 | ST_FORMAT

text \<open>
  Modelled from the spec: \<open>model.h\<close> is not among the sources, so the value
  of the \<open>WD1770\<close> macro is one of the three board profiles the controller
  names, or anything else.
\<close>

datatype fdc_type = WD1770_NONE | WD1770_ACORN | WD1770_MASTER | WD1770_SOLIDISK

text \<open>
  A function pointer of a \<open>DRIVE\<close> is either null or bound by
  \<open>sdf_load\<close> to the function of \<open>sdf.c\<close> (the other backend,
  \<open>fdi.c\<close>, is not among the sources).
\<close>

datatype backend = SDF

record DRIVE =
  close :: "backend option"
  seek :: "backend option"
  readsector :: "backend option"
  writesector :: "backend option"
  readaddress :: "backend option"
  poll :: "backend option"
  format :: "backend option"
  abort :: "backend option"

text \<open>The \<open>wd1770\<close> struct of \<open>wd1770.c\<close>.\<close>

record wd1770_t =
  command :: u8
  sector :: u8
  track :: u8
  status :: u8
  data :: u8
  ctrl :: u8
  curside :: int
  curtrack :: int
  density_w :: int
  written :: int
  stepdir :: int

text \<open>
  The trace is an instrument of the model, not a variable of the program: every call
  of the drive-dispatch layer and every completion callback appends its event, so that
  a theorem can say which calls were made and in which order.
\<close>

datatype event =
    Disc_seek int int
  | Disc_readsector int int int int int
  | Disc_writesector int int int int int
  | Disc_readaddress int int int int
  | Disc_format int int int int
  | Fdc_data u8
  | Fdc_finishread
  | Fdc_notfound
  | Fdc_writeprotect
  | Fdc_getdata int int

text \<open>
  The global variables of the three files.  An array of \<open>NUM_DRIVES\<close>
  elements is a function on the naturals that is only ever applied through
  \<open>arr\<close> and \<open>arr_upd\<close> below, which check the bounds.
\<close>

record machine =
  wd1770 :: wd1770_t
  byte :: int
  nmi :: int
  WD1770 :: fdc_type
  drives :: "nat \<Rightarrow> DRIVE"
  curdrive :: int
  writeprot :: "nat \<Rightarrow> int"
  fdc_time :: int
  motorspin :: int
  motoron :: int
  disc_notfound :: int
  oldtrack :: "nat \<Rightarrow> int"
  geometry :: "nat \<Rightarrow> geometry_t option"
  sdf_fp :: "nat \<Rightarrow> FILE option"
  current_track :: "nat \<Rightarrow> u8"
  state :: state_t
  count :: u16
  sdf_time :: int
  sdf_drive :: u8
  sdf_side :: u8
  sdf_track :: u8
  sdf_sector :: u8
  trace :: "event list"

text \<open>
  Modelled from the spec: \<open>disc.h\<close>, which defines \<open>NUM_DRIVES\<close>,
  is not among the sources; the spec has exactly two drive units and \<open>disc.c\<close>
  declares \<open>DRIVE drives[2]\<close>.
\<close>

definition NUM_DRIVES :: int where
  "NUM_DRIVES = 2"

definition arr :: "(nat \<Rightarrow> 'a) \<Rightarrow> int \<Rightarrow> 'a option" where
  "arr a i = (if 0 \<le> i \<and> i < NUM_DRIVES then Some (a (nat i)) else None)"

definition arr_upd :: "(nat \<Rightarrow> 'a) \<Rightarrow> int \<Rightarrow> 'a \<Rightarrow> (nat \<Rightarrow> 'a) option" where
  "arr_upd a i v = (if 0 \<le> i \<and> i < NUM_DRIVES then Some (a(nat i := v)) else None)"

definition emit :: "event \<Rightarrow> machine \<Rightarrow> machine" where
  "emit e m = m\<lparr>trace := trace m @ [e]\<rparr>"

section \<open>wd1770.c: motor, status and the completion callbacks\<close>

definition wd1770_spinup :: "machine \<Rightarrow> machine" where
  "wd1770_spinup m =
     m\<lparr>wd1770 := (wd1770 m)\<lparr>status := status (wd1770 m) OR 0x80\<rparr>,
       motoron := 1, motorspin := 0\<rparr>"

definition wd1770_spindown :: "machine \<Rightarrow> machine" where
  "wd1770_spindown m =
     m\<lparr>wd1770 := (wd1770 m)\<lparr>status := status (wd1770 m) AND NOT 0x80\<rparr>,
       motoron := 0\<rparr>"

definition wd1770_setspindown :: "machine \<Rightarrow> machine" where
  "wd1770_setspindown m = m\<lparr>motorspin := 45000\<rparr>"

text \<open>The macro \<open>track0\<close>: \<open>(wd1770.curtrack ? 4 : 0)\<close>.\<close>

definition track0 :: "machine \<Rightarrow> u8" where
  "track0 m = (if curtrack (wd1770 m) \<noteq> 0 then 4 else 0)"

text \<open>\<open>WD1770 == WD1770_ACORN || WD1770 == WD1770_MASTER\<close>.\<close>

definition acorn_or_master :: "machine \<Rightarrow> bool" where
  "acorn_or_master m = (WD1770 m = WD1770_ACORN \<or> WD1770 m = WD1770_MASTER)"

definition wd1770_data :: "u8 \<Rightarrow> machine \<Rightarrow> machine" where
  "wd1770_data dat m =
     m\<lparr>wd1770 := (wd1770 m)\<lparr>data := dat, status := status (wd1770 m) OR 2\<rparr>,
       nmi := nmi m OR 2\<rparr>"

definition wd1770_finishread :: "machine \<Rightarrow> machine" where
  "wd1770_finishread m = m\<lparr>fdc_time := 200\<rparr>"

definition wd1770_notfound :: "machine \<Rightarrow> machine" where
  "wd1770_notfound m =
     wd1770_spindown
       (m\<lparr>fdc_time := 0, nmi := (if acorn_or_master m then 1 else 0),
          wd1770 := (wd1770 m)\<lparr>status := 0x90\<rparr>\<rparr>)"

definition wd1770_writeprotect :: "machine \<Rightarrow> machine" where
  "wd1770_writeprotect m =
     wd1770_spindown
       (m\<lparr>fdc_time := 0, nmi := (if acorn_or_master m then 1 else 0),
          wd1770 := (wd1770 m)\<lparr>status := 0xC0\<rparr>\<rparr>)"

text \<open>
  \<open>wd1770_getdata\<close> returns the C \<open>int\<close> and the new state: -1 when
  no byte was written to the data register since the last pull.
\<close>

definition wd1770_getdata :: "int \<Rightarrow> machine \<Rightarrow> int \<times> machine" where
  "wd1770_getdata lastb m =
     (if written (wd1770 m) = 0 then (-1, m)
      else
        (let m1 = (if lastb = 0
                   then m\<lparr>nmi := nmi m OR 2,
                          wd1770 := (wd1770 m)\<lparr>status := status (wd1770 m) OR 2\<rparr>\<rparr>
                   else m)
         in (uint (data (wd1770 m1)), m1\<lparr>wd1770 := (wd1770 m1)\<lparr>written := 0\<rparr>\<rparr>)))"

text \<open>
  The function pointers of \<open>disc.c\<close>, as \<open>wd1770_reset\<close> binds them
  to the functions above.  A call through a pointer is recorded in the trace.
\<close>

definition fdc_data :: "u8 \<Rightarrow> machine \<Rightarrow> machine" where
  "fdc_data dat m = wd1770_data dat (emit (Fdc_data dat) m)"

definition fdc_finishread :: "machine \<Rightarrow> machine" where
  "fdc_finishread m = wd1770_finishread (emit Fdc_finishread m)"

definition fdc_notfound :: "machine \<Rightarrow> machine" where
  "fdc_notfound m = wd1770_notfound (emit Fdc_notfound m)"

definition fdc_writeprotect :: "machine \<Rightarrow> machine" where
  "fdc_writeprotect m = wd1770_writeprotect (emit Fdc_writeprotect m)"

definition fdc_getdata :: "int \<Rightarrow> machine \<Rightarrow> int \<times> machine" where
  "fdc_getdata lastb m =
     (let (c, m1) = wd1770_getdata lastb m in (c, emit (Fdc_getdata lastb c) m1))"

section \<open>sdf.c: the image backend\<close>

definition sdf_close :: "int \<Rightarrow> machine \<Rightarrow> machine option" where
  "sdf_close drive m =
     (if drive < NUM_DRIVES then
        do {
          g \<leftarrow> arr_upd (geometry m) drive None;
          fp \<leftarrow> arr (sdf_fp m) drive;
          (case fp of
             Some f \<Rightarrow>
               do { fps \<leftarrow> arr_upd (sdf_fp m) drive None;
                    Some (m\<lparr>geometry := g, sdf_fp := fps\<rparr>) }
           | None \<Rightarrow> Some (m\<lparr>geometry := g\<rparr>))
        }
      else Some m)"

definition sdf_seek :: "int \<Rightarrow> int \<Rightarrow> machine \<Rightarrow> machine option" where
  "sdf_seek drive trk m =
     (if drive < NUM_DRIVES then
        do { ct \<leftarrow> arr_upd (current_track m) drive (word_of_int trk);
             Some (m\<lparr>current_track := ct\<rparr>) }
      else Some m)"

text \<open>The byte offset that \<open>io_seek\<close> computes, in \<open>uint32_t\<close>.\<close>

definition io_seek_offset :: "geometry_t \<Rightarrow> u8 \<Rightarrow> u8 \<Rightarrow> u8 \<Rightarrow> u32" where
  "io_seek_offset g sec trk side =
     (let track_bytes = (word_of_int (uint (sectors_per_track g) * uint (sector_size g)) :: u32);
          offset =
            (if side = 0 then
               (let off = word_of_int (uint trk) * track_bytes
                in if sides g = SIDES_INTERLEAVED then off * 2 else off)
             else if sides g = SIDES_SEQUENTIAL
               then word_of_int (uint trk + uint (tracks g)) * track_bytes
               else word_of_int (uint trk * 2 + 1) * track_bytes)
      in offset + word_of_int (uint sec * uint (sector_size g)))"

text \<open>The stream \<open>sdf_fp[d]\<close>; \<open>None\<close> when it is null or out of bounds.\<close>

definition stream :: "machine \<Rightarrow> int \<Rightarrow> FILE option" where
  "stream m d = Option.bind (arr (sdf_fp m) d) id"

definition set_stream :: "int \<Rightarrow> FILE \<Rightarrow> machine \<Rightarrow> machine option" where
  "set_stream d f m =
     do { fps \<leftarrow> arr_upd (sdf_fp m) d (Some f); Some (m\<lparr>sdf_fp := fps\<rparr>) }"

definition io_seek :: "geometry_t \<Rightarrow> u8 \<Rightarrow> u8 \<Rightarrow> u8 \<Rightarrow> u8 \<Rightarrow> machine \<Rightarrow> machine option" where
  "io_seek g drive sec trk side m =
     do { f \<leftarrow> stream m (uint drive);
          set_stream (uint drive) (fseek_set (unat (io_seek_offset g sec trk side)) f) m }"

text \<open>The shared tail \<open>count = 500; state = ST_NOTFOUND;\<close> of the four operations.\<close>

definition start_notfound :: "machine \<Rightarrow> machine" where
  "start_notfound m = m\<lparr>count := 500, state := ST_NOTFOUND\<rparr>"

text \<open>
  \<open>(!density && geo->density == DENS_SINGLE) || (density && geo->density == DENS_DOUBLE)\<close>
\<close>

definition density_ok :: "int \<Rightarrow> geometry_t \<Rightarrow> bool" where
  "density_ok dens g =
     ((dens = 0 \<and> density g = DENS_SINGLE) \<or> (dens \<noteq> 0 \<and> density g = DENS_DOUBLE))"

definition sdf_readsector :: "int \<Rightarrow> int \<Rightarrow> int \<Rightarrow> int \<Rightarrow> int \<Rightarrow> machine \<Rightarrow> machine option" where
  "sdf_readsector drive sec trk side dens m =
     (if state m = ST_IDLE then
        (if drive < NUM_DRIVES then
           do {
             go \<leftarrow> arr (geometry m) drive;
             (case go of
                None \<Rightarrow> Some (start_notfound m)
              | Some g \<Rightarrow>
                  if density_ok dens g then
                    do {
                      ct \<leftarrow> arr (current_track m) drive;
                      if trk = uint ct \<and> trk \<ge> 0 \<and> trk < uint (tracks g) then
                        if sec \<ge> 0 \<and> sec < uint (sectors_per_track g) then
                          if side = 0 \<or> sides g \<noteq> SIDES_SINGLE then
                            do {
                              m1 \<leftarrow> io_seek g (word_of_int drive) (word_of_int sec)
                                      (word_of_int trk) (word_of_int side) m;
                              Some (m1\<lparr>count := sector_size g,
                                       sdf_drive := word_of_int drive,
                                       state := ST_READSECTOR\<rparr>)
                            }
                          else Some (start_notfound m)
                        else Some (start_notfound m)
                      else Some (start_notfound m)
                    }
                  else Some (start_notfound m))
           }
         else Some (start_notfound m))
      else Some m)"

definition sdf_writesector :: "int \<Rightarrow> int \<Rightarrow> int \<Rightarrow> int \<Rightarrow> int \<Rightarrow> machine \<Rightarrow> machine option" where
  "sdf_writesector drive sec trk side dens m =
     (if state m = ST_IDLE then
        (if drive < NUM_DRIVES then
           do {
             go \<leftarrow> arr (geometry m) drive;
             (case go of
                None \<Rightarrow> Some (start_notfound m)
              | Some g \<Rightarrow>
                  if density_ok dens g then
                    do {
                      ct \<leftarrow> arr (current_track m) drive;
                      if trk = uint ct \<and> trk \<ge> 0 \<and> trk < uint (tracks g) then
                        if sec \<ge> 0 \<and> sec < uint (sectors_per_track g) then
                          if side = 0 \<or> sides g \<noteq> SIDES_SINGLE then
                            do {
                              m1 \<leftarrow> io_seek g (word_of_int drive) (word_of_int sec)
                                      (word_of_int trk) (word_of_int side) m;
                              Some (m1\<lparr>count := sector_size g,
                                       sdf_drive := word_of_int drive,
                                       sdf_side := word_of_int side,
                                       sdf_track := word_of_int trk,
                                       sdf_sector := word_of_int sec,
                                       sdf_time := -20,
                                       state := ST_WRITESECTOR\<rparr>)
                            }
                          else Some (start_notfound m)
                        else Some (start_notfound m)
                      else Some (start_notfound m)
                    }
                  else Some (start_notfound m))
           }
         else Some (start_notfound m))
      else Some m)"

definition sdf_readaddress :: "int \<Rightarrow> int \<Rightarrow> int \<Rightarrow> int \<Rightarrow> machine \<Rightarrow> machine option" where
  "sdf_readaddress drive trk side dens m =
     (if state m = ST_IDLE then
        (if drive < NUM_DRIVES then
           do {
             go \<leftarrow> arr (geometry m) drive;
             (case go of
                None \<Rightarrow> Some (start_notfound m)
              | Some g \<Rightarrow>
                  if density_ok dens g then
                    do {
                      ct \<leftarrow> arr (current_track m) drive;
                      if trk = uint ct \<and> trk \<ge> 0 \<and> trk < uint (tracks g) then
                        if side = 0 \<or> sides g \<noteq> SIDES_SINGLE then
                          Some (m\<lparr>sdf_drive := word_of_int drive,
                                  sdf_side := word_of_int side,
                                  sdf_track := word_of_int trk,
                                  state := ST_READ_ADDR0\<rparr>)
                        else Some (start_notfound m)
                      else Some (start_notfound m)
                    }
                  else Some (start_notfound m))
           }
         else Some (start_notfound m))
      else Some m)"

text \<open>
  \<open>sdf_format\<close> has no \<open>return\<close> after \<open>state = ST_FORMAT\<close>:
  control reaches the shared tail on every path.
\<close>

definition sdf_format :: "int \<Rightarrow> int \<Rightarrow> int \<Rightarrow> int \<Rightarrow> machine \<Rightarrow> machine option" where
  "sdf_format drive trk side dens m =
     (if state m = ST_IDLE then
        (if drive < NUM_DRIVES then
           do {
             go \<leftarrow> arr (geometry m) drive;
             (case go of
                None \<Rightarrow> Some (start_notfound m)
              | Some g \<Rightarrow>
                  if density_ok dens g then
                    do {
                      ct \<leftarrow> arr (current_track m) drive;
                      if trk = uint ct \<and> trk \<ge> 0 \<and> trk < uint (tracks g) then
                        if side = 0 \<or> sides g \<noteq> SIDES_SINGLE then
                          do {
                            m1 \<leftarrow> io_seek g (word_of_int drive) 0
                                    (word_of_int trk) (word_of_int side) m;
                            Some (start_notfound
                                    (m1\<lparr>sdf_drive := word_of_int drive,
                                        sdf_side := word_of_int side,
                                        sdf_track := word_of_int trk,
                                        sdf_sector := 0,
                                        state := ST_FORMAT\<rparr>))
                          }
                        else Some (start_notfound m)
                      else Some (start_notfound m)
                    }
                  else Some (start_notfound m))
           }
         else Some (start_notfound m))
      else Some m)"

text \<open>
  The \<open>switch\<close> of \<open>sdf_poll\<close>: what one divided poll tick does.
  The decrement of the \<open>uint16_t\<close> counter wraps.
\<close>

definition sdf_tick :: "machine \<Rightarrow> machine option" where
  "sdf_tick m =
     (case state m of
        ST_IDLE \<Rightarrow> Some m
      | ST_NOTFOUND \<Rightarrow>
          (let m1 = m\<lparr>count := count m - 1\<rparr>
           in if count m1 = 0 then Some ((fdc_notfound m1)\<lparr>state := ST_IDLE\<rparr>) else Some m1)
      | ST_READSECTOR \<Rightarrow>
          do {
            f \<leftarrow> stream m (uint (sdf_drive m));
            m1 \<leftarrow> set_stream (uint (sdf_drive m)) (snd (getc f)) m;
            let m2 = fdc_data (word_of_int (fst (getc f))) m1;
            let m3 = m2\<lparr>count := count m2 - 1\<rparr>;
            if count m3 = 0 then Some ((fdc_finishread m3)\<lparr>state := ST_IDLE\<rparr>) else Some m3
          }
      | ST_WRITESECTOR \<Rightarrow>
          do {
            wp \<leftarrow> arr (writeprot m) (uint (sdf_drive m));
            if wp \<noteq> 0 then Some ((fdc_writeprotect m)\<lparr>state := ST_IDLE\<rparr>)
            else
              (let m1 = m\<lparr>count := count m - 1\<rparr>;
                   (c, m2) = fdc_getdata (if count m1 = 0 then 1 else 0) m1
               in if c = -1 then Some (m2\<lparr>count := count m2 + 1\<rparr>)
                  else
                    do {
                      f \<leftarrow> stream m2 (uint (sdf_drive m2));
                      m3 \<leftarrow> set_stream (uint (sdf_drive m2)) (putc c f) m2;
                      if count m3 = 0 then Some ((fdc_finishread m3)\<lparr>state := ST_IDLE\<rparr>)
                      else Some m3
                    })
          }
      | ST_READ_ADDR0 \<Rightarrow> Some ((fdc_data (sdf_track m) m)\<lparr>state := ST_READ_ADDR1\<rparr>)
      | ST_READ_ADDR1 \<Rightarrow> Some ((fdc_data (sdf_side m) m)\<lparr>state := ST_READ_ADDR2\<rparr>)
      | ST_READ_ADDR2 \<Rightarrow> Some ((fdc_data (sdf_sector m) m)\<lparr>state := ST_READ_ADDR3\<rparr>)
      | ST_READ_ADDR3 \<Rightarrow> Some ((fdc_data 1 m)\<lparr>state := ST_READ_ADDR4\<rparr>)
      | ST_READ_ADDR4 \<Rightarrow> Some ((fdc_data 0 m)\<lparr>state := ST_READ_ADDR5\<rparr>)
      | ST_READ_ADDR5 \<Rightarrow> Some ((fdc_data 0 m)\<lparr>state := ST_READ_ADDR6\<rparr>)
      | ST_READ_ADDR6 \<Rightarrow>
          (let m1 = fdc_finishread m;
               m2 = m1\<lparr>sdf_sector := sdf_sector m1 + 1\<rparr>
           in do {
                go \<leftarrow> arr (geometry m2) (uint (sdf_drive m2));
                g \<leftarrow> go;
                if sdf_sector m2 = sectors_per_track g then Some (m2\<lparr>sdf_sector := 0\<rparr>)
                else Some m2
              })
      | ST_FORMAT \<Rightarrow>
          do {
            wp \<leftarrow> arr (writeprot m) (uint (sdf_drive m));
            if wp \<noteq> 0 then Some ((fdc_writeprotect m)\<lparr>state := ST_IDLE\<rparr>)
            else
              (let m1 = m\<lparr>count := count m - 1\<rparr>
               in if count m1 = 0 then
                    (let m2 = m1\<lparr>sdf_sector := sdf_sector m1 + 1\<rparr>
                     in do {
                          go \<leftarrow> arr (geometry m2) (uint (sdf_drive m2));
                          g \<leftarrow> go;
                          if sdf_sector m2 \<ge> sectors_per_track g then Some m2
                          else
                            do { f \<leftarrow> stream m2 (uint (sdf_drive m2));
                                 set_stream (uint (sdf_drive m2)) (putc 0 f) m2 }
                        })
                  else
                    do { f \<leftarrow> stream m1 (uint (sdf_drive m1));
                         set_stream (uint (sdf_drive m1)) (putc 0 f) m1 })
          })"

text \<open>
  \<open>sdf_poll\<close>: the divider \<open>if (++sdf_time <= 16) return; sdf_time = 0;\<close>
  in front of the switch.
\<close>

definition sdf_poll :: "machine \<Rightarrow> machine option" where
  "sdf_poll m =
     (let m1 = m\<lparr>sdf_time := sdf_time m + 1\<rparr>
      in if sdf_time m1 \<le> 16 then Some m1 else sdf_tick (m1\<lparr>sdf_time := 0\<rparr>))"

text \<open>Running a step \<open>n\<close> times, stopping at undefined behaviour.\<close>

primrec iterate :: "nat \<Rightarrow> (machine \<Rightarrow> machine option) \<Rightarrow> machine \<Rightarrow> machine option" where
  "iterate 0 f m = Some m"
| "iterate (Suc n) f m = Option.bind (f m) (iterate n f)"

section \<open>disc.c: the drive-dispatch layer\<close>

text \<open>
  \<open>disc_close\<close> tests and calls the pointer of drive 0, whatever its argument.
\<close>

definition disc_close :: "int \<Rightarrow> machine \<Rightarrow> machine option" where
  "disc_close drive m =
     (case close (drives m 0) of
        Some SDF \<Rightarrow> sdf_close drive m
      | None \<Rightarrow> Some m)"

text \<open>\<open>ddnoise_seek\<close> only plays a sound and is left out.\<close>

definition disc_seek :: "int \<Rightarrow> int \<Rightarrow> machine \<Rightarrow> machine option" where
  "disc_seek drive trk m =
     do {
       d \<leftarrow> arr (drives (emit (Disc_seek drive trk) m)) drive;
       m1 \<leftarrow> (case seek d of
                 Some SDF \<Rightarrow> sdf_seek drive trk (emit (Disc_seek drive trk) m)
               | None \<Rightarrow> Some (emit (Disc_seek drive trk) m));
       ot \<leftarrow> arr_upd (oldtrack m1) drive trk;
       Some (m1\<lparr>oldtrack := ot\<rparr>)
     }"

definition disc_readsector :: "int \<Rightarrow> int \<Rightarrow> int \<Rightarrow> int \<Rightarrow> int \<Rightarrow> machine \<Rightarrow> machine option" where
  "disc_readsector drive sec trk side dens m =
     do {
       d \<leftarrow> arr (drives m) drive;
       (case readsector d of
          Some SDF \<Rightarrow> sdf_readsector drive sec trk side dens
                        (emit (Disc_readsector drive sec trk side dens) m)
        | None \<Rightarrow> Some ((emit (Disc_readsector drive sec trk side dens) m)
                           \<lparr>disc_notfound := 10000\<rparr>))
     }"

definition disc_writesector :: "int \<Rightarrow> int \<Rightarrow> int \<Rightarrow> int \<Rightarrow> int \<Rightarrow> machine \<Rightarrow> machine option" where
  "disc_writesector drive sec trk side dens m =
     do {
       d \<leftarrow> arr (drives m) drive;
       (case writesector d of
          Some SDF \<Rightarrow> sdf_writesector drive sec trk side dens
                        (emit (Disc_writesector drive sec trk side dens) m)
        | None \<Rightarrow> Some ((emit (Disc_writesector drive sec trk side dens) m)
                           \<lparr>disc_notfound := 10000\<rparr>))
     }"

definition disc_readaddress :: "int \<Rightarrow> int \<Rightarrow> int \<Rightarrow> int \<Rightarrow> machine \<Rightarrow> machine option" where
  "disc_readaddress drive trk side dens m =
     do {
       d \<leftarrow> arr (drives m) drive;
       (case readaddress d of
          Some SDF \<Rightarrow> sdf_readaddress drive trk side dens
                        (emit (Disc_readaddress drive trk side dens) m)
        | None \<Rightarrow> Some ((emit (Disc_readaddress drive trk side dens) m)
                           \<lparr>disc_notfound := 10000\<rparr>))
     }"

definition disc_format :: "int \<Rightarrow> int \<Rightarrow> int \<Rightarrow> int \<Rightarrow> machine \<Rightarrow> machine option" where
  "disc_format drive trk side dens m =
     do {
       d \<leftarrow> arr (drives m) drive;
       (case format d of
          Some SDF \<Rightarrow> sdf_format drive trk side dens
                        (emit (Disc_format drive trk side dens) m)
        | None \<Rightarrow> Some ((emit (Disc_format drive trk side dens) m)
                           \<lparr>disc_notfound := 10000\<rparr>))
     }"

section \<open>wd1770.c: register writes\<close>

definition set_status :: "u8 \<Rightarrow> machine \<Rightarrow> machine" where
  "set_status v m = m\<lparr>wd1770 := (wd1770 m)\<lparr>status := v\<rparr>\<rparr>"

definition set_curtrack :: "int \<Rightarrow> machine \<Rightarrow> machine" where
  "set_curtrack t m = m\<lparr>wd1770 := (wd1770 m)\<lparr>curtrack := t\<rparr>\<rparr>"

text \<open>The body of \<open>case 0xC\<close>, which \<open>case 0xA\<close> falls into.\<close>

definition cmd_readaddress :: "machine \<Rightarrow> machine option" where
  "cmd_readaddress m =
     do {
       m1 \<leftarrow> disc_readaddress (curdrive m) (uint (track (wd1770 m))) (curside (wd1770 m))
               (density_w (wd1770 m)) (set_status 0x81 m);
       Some (m1\<lparr>byte := 0\<rparr>)
     }"

text \<open>
  The inner \<open>switch (val >> 4)\<close> of the command register, entered after the
  busy test, the store to \<open>wd1770.command\<close> and the spin-up.
\<close>

definition command_1770 :: "u8 \<Rightarrow> machine \<Rightarrow> machine option" where
  "command_1770 val m =
     (let n = drop_bit 4 val in
      if n = 0x0 then
        (let m1 = set_curtrack 0 m;
             m2 = set_status (0x80 OR 0x21 OR track0 m1) m1
         in disc_seek (curdrive m2) 0 m2)
      else if n = 0x1 then
        (let m1 = set_curtrack (uint (data (wd1770 m))) m;
             m2 = set_status (0x80 OR 0x21 OR track0 m1) m1
         in disc_seek (curdrive m2) (curtrack (wd1770 m2)) m2)
      else if n = 0x2 \<or> n = 0x3 then
        (let m1 = set_status (0x80 OR 0x21 OR track0 m) m;
             m2 = set_curtrack (curtrack (wd1770 m1) + stepdir (wd1770 m1)) m1;
             m3 = (if curtrack (wd1770 m2) < 0 then set_curtrack 0 m2 else m2)
         in disc_seek (curdrive m3) (curtrack (wd1770 m3)) m3)
      else if n = 0x4 \<or> n = 0x5 then
        (let m1 = set_status (0x80 OR 0x21 OR track0 m) m;
             m2 = set_curtrack (curtrack (wd1770 m1) + 1) m1
         in do {
              m3 \<leftarrow> disc_seek (curdrive m2) (curtrack (wd1770 m2)) m2;
              Some (m3\<lparr>wd1770 := (wd1770 m3)\<lparr>stepdir := 1\<rparr>\<rparr>)
            })
      else if n = 0x6 \<or> n = 0x7 then
        (let m1 = set_status (0x80 OR 0x21 OR track0 m) m;
             m2 = set_curtrack (curtrack (wd1770 m1) - 1) m1;
             m3 = (if curtrack (wd1770 m2) < 0 then set_curtrack 0 m2 else m2)
         in do {
              m4 \<leftarrow> disc_seek (curdrive m3) (curtrack (wd1770 m3)) m3;
              Some (m4\<lparr>wd1770 := (wd1770 m4)\<lparr>stepdir := -1\<rparr>\<rparr>)
            })
      else if n = 0x8 then
        do {
          m1 \<leftarrow> disc_readsector (curdrive m) (uint (sector (wd1770 m)))
                  (uint (track (wd1770 m))) (curside (wd1770 m)) (density_w (wd1770 m))
                  (set_status 0x81 m);
          Some (m1\<lparr>byte := 0\<rparr>)
        }
      else if n = 0xA then
        do {
          m1 \<leftarrow> disc_writesector (curdrive m) (uint (sector (wd1770 m)))
                  (uint (track (wd1770 m))) (curside (wd1770 m)) (density_w (wd1770 m))
                  (set_status 0x81 m);
          let m2 = m1\<lparr>byte := 0, nmi := nmi m1 OR 2\<rparr>;
          let m3 = set_status (status (wd1770 m2) OR 2) m2;
          let m4 = m3\<lparr>wd1770 := (wd1770 m3)\<lparr>written := 0\<rparr>\<rparr>;
          cmd_readaddress m4
        }
      else if n = 0xC then cmd_readaddress m
      else if n = 0xD then
        (let m1 = m\<lparr>fdc_time := 0\<rparr>;
             m2 = (if status (wd1770 m1) AND 0x01 \<noteq> 0
                   then set_status (status (wd1770 m1) AND NOT 1) m1
                   else set_status (0x80 OR track0 m1) m1);
             m3 = m2\<lparr>nmi := (if val AND 8 \<noteq> 0 \<and> acorn_or_master m2 then 1 else 0)\<rparr>
         in Some (wd1770_setspindown m3))
      else if n = 0xF then
        disc_format (curdrive m) (uint (track (wd1770 m))) (curside (wd1770 m))
          (density_w (wd1770 m)) (set_status 0x81 m)
      else
        (let m1 = m\<lparr>fdc_time := 0\<rparr>;
             m2 = (if acorn_or_master m1 then m1\<lparr>nmi := 1\<rparr> else m1)
         in Some (wd1770_spindown (set_status 0x90 m2))))"

definition write_1770 :: "u16 \<Rightarrow> u8 \<Rightarrow> machine \<Rightarrow> machine option" where
  "write_1770 addr val m =
     (if addr AND 0x03 = 0 then
        (if status (wd1770 m) AND 1 \<noteq> 0 \<and> drop_bit 4 val \<noteq> 0xD then Some m
         else
           (let m1 = m\<lparr>wd1770 := (wd1770 m)\<lparr>command := val\<rparr>\<rparr>;
                m2 = (if drop_bit 4 val \<noteq> 0xD then wd1770_spinup m1 else m1)
            in command_1770 val m2))
      else if addr AND 0x03 = 1 then Some (m\<lparr>wd1770 := (wd1770 m)\<lparr>track := val\<rparr>\<rparr>)
      else if addr AND 0x03 = 2 then Some (m\<lparr>wd1770 := (wd1770 m)\<lparr>sector := val\<rparr>\<rparr>)
      else
        Some (m\<lparr>nmi := nmi m AND NOT 2,
                wd1770 := (wd1770 m)\<lparr>status := status (wd1770 m) AND NOT 2,
                                       data := val, written := 1\<rparr>\<rparr>))"

text \<open>
  \<open>wd1770_reset\<close>.  Its assignments to the callback pointers \<open>fdc_data\<close>,
  \<open>fdc_finishread\<close> and so on store the functions that the callbacks above
  already call, so they change nothing here.
\<close>

definition wd1770_reset :: "machine \<Rightarrow> machine" where
  "wd1770_reset m =
     (set_status 0 (m\<lparr>nmi := 0\<rparr>))\<lparr>fdc_time := 0, motorspin := 45000\<rparr>"

text \<open>The C truth value of a condition: 1 or 0.\<close>

definition bool_int :: "bool \<Rightarrow> int" where
  "bool_int b = (if b then 1 else 0)"

text \<open>The three board-specific control registers.\<close>

definition write_ctrl_acorn :: "u8 \<Rightarrow> machine \<Rightarrow> machine" where
  "write_ctrl_acorn val m =
     (let m1 = (if val AND 0x20 \<noteq> 0 then wd1770_reset m else m)
      in m1\<lparr>curdrive := bool_int (val AND 0x02 \<noteq> 0),
            wd1770 := (wd1770 m1)\<lparr>ctrl := val,
                                    curside := bool_int (val AND 0x04 \<noteq> 0),
                                    density_w := bool_int (val AND 0x08 = 0)\<rparr>\<rparr>)"

definition write_ctrl_master :: "u8 \<Rightarrow> machine \<Rightarrow> machine" where
  "write_ctrl_master val m =
     (let m1 = (if val AND 0x04 \<noteq> 0 then wd1770_reset m else m)
      in m1\<lparr>curdrive := bool_int (val AND 2 \<noteq> 0),
            wd1770 := (wd1770 m1)\<lparr>ctrl := val,
                                    curside := bool_int (val AND 0x10 \<noteq> 0),
                                    density_w := bool_int (val AND 0x20 = 0)\<rparr>\<rparr>)"

definition write_ctrl_stl :: "u8 \<Rightarrow> machine \<Rightarrow> machine" where
  "write_ctrl_stl val m =
     m\<lparr>curdrive := uint (val AND 0x01),
       wd1770 := (wd1770 m)\<lparr>ctrl := val,
                              curside := bool_int (val AND 0x02 \<noteq> 0),
                              density_w := bool_int (val AND 0x04 = 0)\<rparr>\<rparr>"


section \<open>Initial state and a loaded image\<close>

text \<open>A drive with every pointer null, and one with every pointer bound by \<open>sdf_load\<close>.\<close>

definition null_DRIVE :: DRIVE where
  "null_DRIVE =
     \<lparr>close = None, seek = None, readsector = None, writesector = None,
      readaddress = None, poll = None, format = None, abort = None\<rparr>"

definition sdf_DRIVE :: DRIVE where
  "sdf_DRIVE =
     \<lparr>close = Some SDF, seek = Some SDF, readsector = Some SDF, writesector = Some SDF,
      readaddress = Some SDF, poll = Some SDF, format = Some SDF, abort = Some SDF\<rparr>"

text \<open>
  The static initialisers of the three files: every variable zero or null,
  \<open>state = ST_IDLE\<close>, \<open>curdrive = 0\<close>.
\<close>

definition initial_machine :: "fdc_type \<Rightarrow> machine" where
  "initial_machine board =
     \<lparr>wd1770 = \<lparr>command = 0, sector = 0, track = 0, status = 0, data = 0, ctrl = 0,
                 curside = 0, curtrack = 0, density_w = 0, written = 0, stepdir = 0\<rparr>,
      byte = 0, nmi = 0, WD1770 = board,
      drives = (\<lambda>_. null_DRIVE),
      curdrive = 0, writeprot = (\<lambda>_. 0), fdc_time = 0, motorspin = 0, motoron = 0,
      disc_notfound = 0, oldtrack = (\<lambda>_. 0),
      geometry = (\<lambda>_. None), sdf_fp = (\<lambda>_. None), current_track = (\<lambda>_. 0),
      state = ST_IDLE, count = 0, sdf_time = 0, sdf_drive = 0, sdf_side = 0,
      sdf_track = 0, sdf_sector = 0, trace = []\<rparr>"

text \<open>
  The assignments of \<open>sdf_load\<close> once the image was opened for update and
  its geometry detected: the write-protect flag is cleared, the stream and the geometry
  are stored, and the eight function pointers of the drive are bound.
\<close>

definition sdf_bind :: "int \<Rightarrow> geometry_t \<Rightarrow> FILE \<Rightarrow> machine \<Rightarrow> machine option" where
  "sdf_bind drive g f m =
     do {
       wp \<leftarrow> arr_upd (writeprot m) drive 0;
       fps \<leftarrow> arr_upd (sdf_fp m) drive (Some f);
       gs \<leftarrow> arr_upd (geometry m) drive (Some g);
       ds \<leftarrow> arr_upd (drives m) drive sdf_DRIVE;
       Some (m\<lparr>writeprot := wp, sdf_fp := fps, geometry := gs, drives := ds\<rparr>)
     }"

section \<open>Definitions used to state the properties\<close>

text \<open>
  The byte offset as the specification words it: side 0 is at track times
  bytes-per-track, doubled for interleaved sides; side 1 is at (track + total tracks)
  times bytes-per-track for the sequential layout and at (2 * track + 1) times
  bytes-per-track otherwise; plus sector times sector size.  Computed over the
  integers, without wrap-around.
\<close>

definition spec_offset :: "geometry_t \<Rightarrow> int \<Rightarrow> int \<Rightarrow> int \<Rightarrow> int" where
  "spec_offset g sec trk side =
     (let track_bytes = uint (sectors_per_track g) * uint (sector_size g) in
      (if side = 0
       then (if sides g = SIDES_INTERLEAVED then 2 * (trk * track_bytes) else trk * track_bytes)
       else if sides g = SIDES_SEQUENTIAL then (trk + uint (tracks g)) * track_bytes
       else (2 * trk + 1) * track_bytes)
      + sec * uint (sector_size g))"

text \<open>
  The nested conditions of \<open>sdf_readsector\<close> and \<open>sdf_writesector\<close>
  for a drive index inside the arrays and the geometry \<open>g\<close> bound to it.
\<close>

definition sector_guards :: "machine \<Rightarrow> geometry_t \<Rightarrow> int \<Rightarrow> int \<Rightarrow> int \<Rightarrow> int \<Rightarrow> int \<Rightarrow> bool" where
  "sector_guards m g drive sec trk side dens =
     (state m = ST_IDLE \<and> (drive = 0 \<or> drive = 1) \<and> geometry m (nat drive) = Some g \<and>
      density_ok dens g \<and> trk = uint (current_track m (nat drive)) \<and> trk < uint (tracks g) \<and>
      0 \<le> sec \<and> sec < uint (sectors_per_track g) \<and> (side = 0 \<or> sides g \<noteq> SIDES_SINGLE))"

text \<open>
  The nested conditions of \<open>sdf_readaddress\<close> and \<open>sdf_format\<close>,
  likewise.
\<close>

definition track_guards :: "machine \<Rightarrow> geometry_t \<Rightarrow> int \<Rightarrow> int \<Rightarrow> int \<Rightarrow> int \<Rightarrow> bool" where
  "track_guards m g drive trk side dens =
     (state m = ST_IDLE \<and> (drive = 0 \<or> drive = 1) \<and> geometry m (nat drive) = Some g \<and>
      density_ok dens g \<and> trk = uint (current_track m (nat drive)) \<and> trk < uint (tracks g) \<and>
      (side = 0 \<or> sides g \<noteq> SIDES_SINGLE))"

text \<open>A blank image of \<open>n\<close> zero bytes, positioned at its start.\<close>

definition blank_image :: "nat \<Rightarrow> FILE" where
  "blank_image n = \<lparr>contents = replicate n 0, pos = 0\<rparr>"

text \<open>Catalog entries and machine states used as concrete instances.\<close>

definition adfs_l :: geometry_t where
  "adfs_l = geo ''Acorn ADFS L'' SIDES_INTERLEAVED DENS_DOUBLE 2560 80 16 256"

definition solidisk_seq80 :: geometry_t where
  "solidisk_seq80 = geo ''Solidisk DDFS'' SIDES_SEQUENTIAL DENS_DOUBLE 1280 80 16 256"

definition adfs_f :: geometry_t where
  "adfs_f = geo ''Acorn ADFS F'' SIDES_INTERLEAVED DENS_QUAD 1600 80 10 1024"

definition dfs_single80 :: geometry_t where
  "dfs_single80 = geo ''Acorn DFS'' SIDES_SINGLE DENS_SINGLE 800 80 10 256"

text \<open>
  Both drives loaded with an empty image of geometry \<open>g\<close> and the heads seeked
  to track \<open>t\<close>; everything else as at start-up.
\<close>

definition example_machine :: "geometry_t \<Rightarrow> u8 \<Rightarrow> machine" where
  "example_machine g t =
     (initial_machine WD1770_ACORN)
       \<lparr>geometry := (\<lambda>_. Some g), sdf_fp := (\<lambda>_. Some (blank_image 0)),
        current_track := (\<lambda>_. t)\<rparr>"

text \<open>
  The machine after \<open>sdf_load\<close> has bound an empty single-sided DFS image to
  drive \<open>d\<close> only.
\<close>

definition one_drive_loaded :: "nat \<Rightarrow> machine" where
  "one_drive_loaded d =
     (initial_machine WD1770_ACORN)
       \<lparr>drives := (\<lambda>_. null_DRIVE)(d := sdf_DRIVE),
        geometry := (\<lambda>_. None)(d := Some dfs_single80),
        sdf_fp := (\<lambda>_. None)(d := Some (blank_image 0))\<rparr>"

text \<open>The busy bit of the status register, as \<open>write_1770\<close> tests it.\<close>

definition busy :: "machine \<Rightarrow> bool" where
  "busy m = (status (wd1770 m) AND 1 \<noteq> 0)"
















text \<open>
  The divider of \<open>sdf_poll\<close> on its own: started with \<open>sdf_time = t\<close>,
  after \<open>n\<close> calls it has let \<open>fst (divider t n)\<close> calls through to
  the switch (the divided poll ticks) and left \<open>sdf_time\<close> at
  \<open>snd (divider t n)\<close>.
\<close>

fun divider :: "int \<Rightarrow> nat \<Rightarrow> nat \<times> int" where
  "divider t 0 = (0, t)"
| "divider t (Suc n) =
     (if snd (divider t n) + 1 \<le> 16 then (fst (divider t n), snd (divider t n) + 1)
      else (Suc (fst (divider t n)), 0))"


text \<open>
  Supplying a write-sector transfer with bytes: for each byte the processor writes the
  data register and the backend then runs one divided poll tick.
\<close>

fun write_bytes :: "u8 list \<Rightarrow> machine \<Rightarrow> machine option" where
  "write_bytes [] m = Some m"
| "write_bytes (b # bs) m =
     Option.bind (Option.bind (write_1770 3 b m) sdf_tick) (write_bytes bs)"

text \<open>The stream after the bytes were put one after the other.\<close>

fun puts :: "u8 list \<Rightarrow> FILE \<Rightarrow> FILE" where
  "puts [] f = f"
| "puts (b # bs) f = puts bs (putc (uint b) f)"

section \<open>Basic facts about arrays and the accepted path of an operation\<close>

lemma arr_in: "drive = 0 \<or> drive = 1 \<Longrightarrow> arr a drive = Some (a (nat drive))"
  by (auto simp: arr_def NUM_DRIVES_def)

lemma arr_upd_in: "drive = 0 \<or> drive = 1 \<Longrightarrow> arr_upd a drive v = Some (a(nat drive := v))"
  by (auto simp: arr_upd_def NUM_DRIVES_def)

lemma drive_word: "drive = 0 \<or> drive = 1 \<Longrightarrow> uint (word_of_int drive :: u8) = drive"
  by auto

lemma io_seek_ok:
  assumes "drive = 0 \<or> drive = 1" "sdf_fp m (nat drive) = Some f"
  shows "io_seek g (word_of_int drive) sec trk side m =
           Some (m\<lparr>sdf_fp := (sdf_fp m)(nat drive :=
                   Some (fseek_set (unat (io_seek_offset g sec trk side)) f))\<rparr>)"
  using assms
  by (simp add: io_seek_def stream_def set_stream_def drive_word arr_in arr_upd_in)

lemma sdf_readsector_ok:
  assumes "sector_guards m g drive sec trk side dens" "sdf_fp m (nat drive) = Some f"
  shows "sdf_readsector drive sec trk side dens m =
           Some (m\<lparr>sdf_fp := (sdf_fp m)(nat drive := Some (fseek_set
                     (unat (io_seek_offset g (word_of_int sec) (word_of_int trk) (word_of_int side))) f)),
                   count := sector_size g, sdf_drive := word_of_int drive,
                   state := ST_READSECTOR\<rparr>)"
proof -
  from assms(1) have d: "drive = 0 \<or> drive = 1" by (simp add: sector_guards_def)
  from assms(1) have lt: "drive < NUM_DRIVES" by (auto simp: sector_guards_def NUM_DRIVES_def)
  show ?thesis
    using assms lt
    by (simp add: sdf_readsector_def sector_guards_def arr_in[OF d] io_seek_ok[OF d assms(2)])
qed

lemma sdf_writesector_ok:
  assumes "sector_guards m g drive sec trk side dens" "sdf_fp m (nat drive) = Some f"
  shows "sdf_writesector drive sec trk side dens m =
           Some (m\<lparr>sdf_fp := (sdf_fp m)(nat drive := Some (fseek_set
                     (unat (io_seek_offset g (word_of_int sec) (word_of_int trk) (word_of_int side))) f)),
                   count := sector_size g, sdf_drive := word_of_int drive,
                   sdf_side := word_of_int side, sdf_track := word_of_int trk,
                   sdf_sector := word_of_int sec, sdf_time := -20,
                   state := ST_WRITESECTOR\<rparr>)"
proof -
  from assms(1) have d: "drive = 0 \<or> drive = 1" by (simp add: sector_guards_def)
  from assms(1) have lt: "drive < NUM_DRIVES" by (auto simp: sector_guards_def NUM_DRIVES_def)
  show ?thesis
    using assms lt
    by (simp add: sdf_writesector_def sector_guards_def arr_in[OF d] io_seek_ok[OF d assms(2)])
qed

section \<open>What a call into the dispatch layer leaves unchanged\<close>

lemma start_notfound_frame [simp]:
  "wd1770 (start_notfound m) = wd1770 m" "trace (start_notfound m) = trace m"
  by (simp_all add: start_notfound_def)






lemma sdf_seek_frame:
  "sdf_seek d t m = Some m' \<Longrightarrow> wd1770 m' = wd1770 m \<and> trace m' = trace m"
  by (auto simp: sdf_seek_def split: if_splits Option.bind_splits)

lemma emit_frame [simp]: "wd1770 (emit e m) = wd1770 m" "trace (emit e m) = trace m @ [e]"
  by (simp_all add: emit_def)

lemma disc_seek_frame:
  "disc_seek d t m = Some m' \<Longrightarrow> wd1770 m' = wd1770 m \<and> trace m' = trace m @ [Disc_seek d t]"
  by (auto simp: disc_seek_def split: Option.bind_splits option.splits backend.splits
      dest!: sdf_seek_frame)





section \<open>The command switch and the busy bit\<close>

lemma set_status_simps [simp]:
  "status (wd1770 (set_status v m)) = v" "trace (set_status v m) = trace m"
  "curdrive (set_status v m) = curdrive m"
  "curtrack (wd1770 (set_status v m)) = curtrack (wd1770 m)"
  by (simp_all add: set_status_def)

lemma set_curtrack_simps [simp]:
  "status (wd1770 (set_curtrack t m)) = status (wd1770 m)" "trace (set_curtrack t m) = trace m"
  "curtrack (wd1770 (set_curtrack t m)) = t" "curdrive (set_curtrack t m) = curdrive m"
  by (simp_all add: set_curtrack_def)

lemma track0_busy [simp]: "(0x80 OR 0x21 OR track0 m) AND 1 = 1"
  by (simp add: track0_def)



section \<open>Accepted track requests and the not-found countdown\<close>

lemma iterate_add: "iterate (a + b) f m = Option.bind (iterate a f m) (iterate b f)"
  by (induction a arbitrary: m) (auto split: Option.bind_splits)

lemma iterate_Suc_end: "iterate (Suc n) f m = Option.bind (iterate n f m) f"
  using iterate_add[of n 1 f m] by (simp cong: Option.bind_cong)

lemma sdf_format_accepted:
  assumes "track_guards m g drive trk side dens" "sdf_fp m (nat drive) = Some f"
  shows "sdf_format drive trk side dens m =
           Some (m\<lparr>sdf_fp := (sdf_fp m)(nat drive := Some (fseek_set
                     (unat (io_seek_offset g 0 (word_of_int trk) (word_of_int side))) f)),
                   sdf_drive := word_of_int drive, sdf_side := word_of_int side,
                   sdf_track := word_of_int trk, sdf_sector := 0,
                   count := 500, state := ST_NOTFOUND\<rparr>)"
proof -
  from assms(1) have d: "drive = 0 \<or> drive = 1" by (simp add: track_guards_def)
  from assms(1) have lt: "drive < NUM_DRIVES" by (auto simp: track_guards_def NUM_DRIVES_def)
  show ?thesis
    using assms lt
    by (simp add: sdf_format_def track_guards_def arr_in[OF d] io_seek_ok[OF d assms(2)]
        start_notfound_def)
qed

lemma sdf_readaddress_accepted:
  assumes "track_guards m g drive trk side dens"
  shows "sdf_readaddress drive trk side dens m =
           Some (m\<lparr>sdf_drive := word_of_int drive, sdf_side := word_of_int side,
                   sdf_track := word_of_int trk, state := ST_READ_ADDR0\<rparr>)"
proof -
  from assms(1) have d: "drive = 0 \<or> drive = 1" by (simp add: track_guards_def)
  from assms(1) have lt: "drive < NUM_DRIVES" by (auto simp: track_guards_def NUM_DRIVES_def)
  show ?thesis
    using assms lt
    by (simp add: sdf_readaddress_def track_guards_def arr_in[OF d])
qed

lemma notfound_tick_more:
  assumes "state m = ST_NOTFOUND" "count m \<noteq> 1"
  shows "sdf_tick m = Some (m\<lparr>count := count m - 1\<rparr>)"
  using assms by (simp add: sdf_tick_def Let_def)

lemma notfound_tick_last:
  assumes "state m = ST_NOTFOUND" "count m = 1"
  shows "sdf_tick m = Some ((fdc_notfound (m\<lparr>count := 0\<rparr>))\<lparr>state := ST_IDLE\<rparr>)"
  using assms by (simp add: sdf_tick_def Let_def)

lemma count_minus_ne1:
  fixes c :: u16
  assumes "Suc n < unat c"
  shows "c - of_nat n \<noteq> 1"
proof
  assume "c - of_nat n = 1"
  then have "c = of_nat (Suc n)" by (simp add: algebra_simps)
  moreover have "Suc n < 2 ^ 16" using assms unsigned_less[of c, where 'a = nat] by simp
  ultimately have "unat c = Suc n" using of_nat_inverse[of "Suc n" c] by simp
  with assms show False by simp
qed

lemma notfound_ticks_before:
  "state m = ST_NOTFOUND \<Longrightarrow> n < unat (count m) \<Longrightarrow>
   iterate n sdf_tick m = Some (m\<lparr>count := count m - of_nat n\<rparr>)"
proof (induction n)
  case 0
  then show ?case by simp
next
  case (Suc n)
  then have ih: "iterate n sdf_tick m = Some (m\<lparr>count := count m - of_nat n\<rparr>)" by simp
  have ne: "count m - of_nat n \<noteq> 1" using count_minus_ne1 Suc.prems(2) by blast
  show ?case
    using Suc.prems(1) ne
    by (simp add: iterate_Suc_end ih notfound_tick_more del: iterate.simps)
qed

lemma notfound_ticks_all:
  assumes "state m = ST_NOTFOUND" "unat (count m) = Suc n"
  shows "iterate (Suc n) sdf_tick m = Some ((fdc_notfound (m\<lparr>count := 0\<rparr>))\<lparr>state := ST_IDLE\<rparr>)"
proof -
  have ih: "iterate n sdf_tick m = Some (m\<lparr>count := count m - of_nat n\<rparr>)"
    using notfound_ticks_before[of m n] assms by simp
  have "count m = of_nat (unat (count m))" by simp
  then have "count m = of_nat (Suc n)" using assms(2) by simp
  then have one: "count m - of_nat n = 1" by simp
  show ?thesis
    using assms(1) one
    by (simp add: iterate_Suc_end ih notfound_tick_last del: iterate.simps)
qed

lemma fdc_notfound_trace [simp]: "trace (fdc_notfound m) = trace m @ [Fdc_notfound]"
  by (simp add: fdc_notfound_def wd1770_notfound_def wd1770_spindown_def emit_def)

lemma notfound_countdown_500:
  assumes "state m = ST_NOTFOUND" "count m = 500"
  shows "(\<forall>n<500. \<exists>m'. iterate n sdf_tick m = Some m' \<and> state m' = ST_NOTFOUND \<and>
                        trace m' = trace m)
       \<and> (\<exists>m'. iterate 500 sdf_tick m = Some m' \<and> state m' = ST_IDLE \<and>
                 trace m' = trace m @ [Fdc_notfound])"
proof -
  have u: "unat (count m) = 500" using assms(2) by simp
  have a: "\<exists>m'. iterate n sdf_tick m = Some m' \<and> state m' = ST_NOTFOUND \<and> trace m' = trace m"
    if "n < 500" for n
    using notfound_ticks_before[of m n] assms(1) u that by simp
  have "unat (count m) = Suc 499" using u by simp
  from notfound_ticks_all[OF assms(1) this]
  have "\<exists>m'. iterate 500 sdf_tick m = Some m' \<and> state m' = ST_IDLE \<and>
                 trace m' = trace m @ [Fdc_notfound]"
    by (simp del: iterate.simps)
  with a show ?thesis by blast
qed

section \<open>The poll divider\<close>

lemmas callback_defs = fdc_data_def fdc_finishread_def fdc_notfound_def fdc_writeprotect_def
  fdc_getdata_def wd1770_getdata_def
  wd1770_data_def wd1770_finishread_def wd1770_notfound_def wd1770_writeprotect_def
  wd1770_spindown_def emit_def acorn_or_master_def

lemma tick_time_simple:
  assumes "state m \<notin> {ST_READSECTOR, ST_WRITESECTOR, ST_READ_ADDR6, ST_FORMAT}"
  shows "sdf_tick (m\<lparr>sdf_time := x\<rparr>) = map_option (sdf_time_update (\<lambda>_. x)) (sdf_tick m)"
  using assms by (cases "state m") (simp_all add: sdf_tick_def Let_def callback_defs)

lemma tick_time_read:
  assumes "state m = ST_READSECTOR"
  shows "sdf_tick (m\<lparr>sdf_time := x\<rparr>) = map_option (sdf_time_update (\<lambda>_. x)) (sdf_tick m)"
proof (cases "stream m (uint (sdf_drive m))")
  case None
  then show ?thesis using assms by (simp add: sdf_tick_def stream_def)
next
  case (Some f)
  then obtain fps where "arr_upd (sdf_fp m) (uint (sdf_drive m)) (Some (snd (getc f))) = Some fps"
    by (auto simp: stream_def arr_def arr_upd_def split: if_splits)
  then show ?thesis using assms Some
    by (simp add: sdf_tick_def stream_def set_stream_def Let_def callback_defs)
qed

lemma tick_time_addr6:
  assumes "state m = ST_READ_ADDR6"
  shows "sdf_tick (m\<lparr>sdf_time := x\<rparr>) = map_option (sdf_time_update (\<lambda>_. x)) (sdf_tick m)"
proof (cases "Option.bind (arr (geometry m) (uint (sdf_drive m))) id")
  case None
  then show ?thesis using assms
    by (auto simp: sdf_tick_def Let_def callback_defs split: Option.bind_splits)
next
  case (Some g)
  then have "arr (geometry m) (uint (sdf_drive m)) = Some (Some g)"
    by (auto split: Option.bind_splits)
  then show ?thesis using assms
    by (simp add: sdf_tick_def Let_def callback_defs)
qed


lemma tick_time_write:
  assumes "state m = ST_WRITESECTOR"
  shows "sdf_tick (m\<lparr>sdf_time := x\<rparr>) = map_option (sdf_time_update (\<lambda>_. x)) (sdf_tick m)"
proof (cases "0 \<le> uint (sdf_drive m) \<and> uint (sdf_drive m) < 2")
  case False
  then show ?thesis using assms
    by (simp add: sdf_tick_def arr_def NUM_DRIVES_def)
next
  case True
  note d = this
  show ?thesis
  proof (cases "writeprot m (nat (uint (sdf_drive m))) \<noteq> 0")
    case True
    then show ?thesis using assms d
      by (simp add: sdf_tick_def arr_def NUM_DRIVES_def callback_defs)
  next
    case False
    note wp = this
    show ?thesis
    proof (cases "written (wd1770 m) = 0")
      case True
      then show ?thesis using assms d wp
        by (simp add: sdf_tick_def arr_def NUM_DRIVES_def callback_defs Let_def)
    next
      case False
      note wr = this
      show ?thesis
      proof (cases "sdf_fp m (nat (uint (sdf_drive m)))")
        case None
        then show ?thesis using assms d wp wr
          by (simp add: sdf_tick_def arr_def NUM_DRIVES_def callback_defs Let_def stream_def)
      next
        case (Some f)
        then show ?thesis using assms d wp wr
          by (simp add: sdf_tick_def arr_def arr_upd_def NUM_DRIVES_def callback_defs Let_def
              stream_def set_stream_def)
      qed
    qed
  qed
qed

lemma tick_time_format:
  assumes "state m = ST_FORMAT"
  shows "sdf_tick (m\<lparr>sdf_time := x\<rparr>) = map_option (sdf_time_update (\<lambda>_. x)) (sdf_tick m)"
proof (cases "0 \<le> uint (sdf_drive m) \<and> uint (sdf_drive m) < 2")
  case False
  then show ?thesis using assms
    by (simp add: sdf_tick_def arr_def NUM_DRIVES_def)
next
  case True
  note d = this
  show ?thesis
  proof (cases "writeprot m (nat (uint (sdf_drive m))) \<noteq> 0")
    case True
    then show ?thesis using assms d
      by (simp add: sdf_tick_def arr_def NUM_DRIVES_def callback_defs)
  next
    case False
    note wp = this
    show ?thesis
    proof (cases "sdf_fp m (nat (uint (sdf_drive m)))")
      case None
      then show ?thesis using assms d wp
        by (cases "geometry m (nat (uint (sdf_drive m)))")
          (simp_all add: sdf_tick_def arr_def NUM_DRIVES_def Let_def stream_def)
    next
      case (Some f)
      then show ?thesis using assms d wp
        by (cases "geometry m (nat (uint (sdf_drive m)))")
          (simp_all add: sdf_tick_def arr_def arr_upd_def NUM_DRIVES_def Let_def
              stream_def set_stream_def)
    qed
  qed
qed

lemma sdf_tick_time_update:
  "sdf_tick (m\<lparr>sdf_time := x\<rparr>) = map_option (sdf_time_update (\<lambda>_. x)) (sdf_tick m)"
  using tick_time_simple[of m x] tick_time_read[of m x] tick_time_write[of m x]
    tick_time_addr6[of m x] tick_time_format[of m x]
  by blast

lemma iterate_None: "iterate a f m = None \<Longrightarrow> iterate (a + b) f m = None"
  by (simp add: iterate_add)

lemma sdf_poll_time:
  "sdf_poll (m\<lparr>sdf_time := T\<rparr>) =
     (if T + 1 \<le> 16 then Some (m\<lparr>sdf_time := T + 1\<rparr>)
      else map_option (sdf_time_update (\<lambda>_. 0)) (sdf_tick m))"
  by (simp add: sdf_poll_def Let_def sdf_tick_time_update)

lemma polls_are_ticks:
  "iterate n sdf_poll m =
     map_option (sdf_time_update (\<lambda>_. snd (divider (sdf_time m) n)))
       (iterate (fst (divider (sdf_time m) n)) sdf_tick m)"
proof (induction n)
  case 0
  show ?case by simp
next
  case (Suc n)
  let ?q = "fst (divider (sdf_time m) n)" and ?T = "snd (divider (sdf_time m) n)"
  show ?case
  proof (cases "iterate ?q sdf_tick m")
    case None
    then have "iterate (Suc ?q) sdf_tick m = None" using iterate_None[of ?q sdf_tick m 1] by simp
    with None Suc show ?thesis
      by (simp add: iterate_Suc_end del: iterate.simps)
  next
    case (Some m')
    with Suc have "iterate n sdf_poll m = Some (m'\<lparr>sdf_time := ?T\<rparr>)" by simp
    then have "iterate (Suc n) sdf_poll m = sdf_poll (m'\<lparr>sdf_time := ?T\<rparr>)"
      by (simp add: iterate_Suc_end del: iterate.simps)
    then show ?thesis using Some
      by (simp add: sdf_poll_time iterate_Suc_end del: iterate.simps)
  qed
qed

lemma divider_wait: "t + int n \<le> 16 \<Longrightarrow> divider t n = (0, t + int n)"
  by (induction n) auto

lemma divider_zero: "r < 17 \<Longrightarrow> divider 0 (17 * q + r) = (q, int r)"
proof (induction q arbitrary: r)
  case 0
  then show ?case by (simp add: divider_wait)
next
  case (Suc q)
  have a: "divider 0 (17 * q + 16) = (q, 16)" using Suc.IH[of 16] by simp
  have "divider 0 (Suc (17 * q + 16)) = (Suc q, 0)"
    by (simp only: divider.simps a) simp
  moreover have e: "17 * Suc q = Suc (17 * q + 16)" by simp
  ultimately have b: "divider 0 (17 * Suc q) = (Suc q, 0)" by (simp only:)
  show ?case using Suc.prems
  proof (induction r)
    case 0
    show ?case using b by simp
  next
    case (Suc r)
    then have ih: "divider 0 (17 * Suc q + r) = (Suc q, int r)" by simp
    have "divider 0 (Suc (17 * Suc q + r)) = (Suc q, int (Suc r))"
      using Suc.prems by (simp only: divider.simps ih) simp
    then show ?case by (simp only: add_Suc_right)
  qed
qed

section \<open>The byte offset of a sector\<close>

lemma catalog_bounds:
  "g \<in> set catalog \<Longrightarrow> uint (tracks g) \<le> 80 \<and> uint (sectors_per_track g) \<le> 18 \<and> uint (sector_size g) \<le> 1024"
  by (auto simp: catalog_def adfs_new_formats_def adfs_old_formats_def dfs_formats_def geo_def)

lemma io_seek_offset_word:
  assumes "0 \<le> trk" "trk < 256" "0 \<le> sec" "sec < 256" "side = 0 \<or> side = 1"
  shows "io_seek_offset g (word_of_int sec) (word_of_int trk) (word_of_int side)
         = word_of_int (spec_offset g sec trk side)"
proof -
  have t: "uint (word_of_int trk :: u8) = trk" using assms by (simp add: uint_word_of_int)
  have s: "uint (word_of_int sec :: u8) = sec" using assms by (simp add: uint_word_of_int)
  show ?thesis
    using assms(5)
    by (auto simp: io_seek_offset_def spec_offset_def Let_def t s algebra_simps)
qed

lemma spec_offset_range:
  assumes "g \<in> set catalog" "0 \<le> trk" "trk < uint (tracks g)" "0 \<le> sec"
    "sec < uint (sectors_per_track g)" "side = 0 \<or> side = 1"
  shows "0 \<le> spec_offset g sec trk side \<and> spec_offset g sec trk side < 2 ^ 32"
proof -
  from catalog_bounds[OF assms(1)] have b: "uint (tracks g) \<le> 80"
    "uint (sectors_per_track g) \<le> 18" "uint (sector_size g) \<le> 1024" by auto
  define tb where "tb = uint (sectors_per_track g) * uint (sector_size g)"
  define sb where "sb = sec * uint (sector_size g)"
  have tb0: "0 \<le> tb" by (simp add: tb_def)
  have tb: "tb \<le> 18 * 1024" unfolding tb_def using b by (intro mult_mono) auto
  have "sec * uint (sector_size g) \<le> 18 * 1024"
    using assms(4,5) b by (intro mult_mono) auto
  then have sb: "0 \<le> sb" "sb \<le> 18 * 1024"
    unfolding sb_def using assms(4) by auto
  have k: "0 \<le> k * tb \<and> k * tb \<le> 161 * (18 * 1024)" if "0 \<le> k" "k \<le> 161" for k
  proof -
    have "k * tb \<le> 161 * (18 * 1024)" using that tb tb0 by (intro mult_mono) auto
    then show ?thesis using that tb0 by simp
  qed
  define p1 where "p1 = trk * tb"
  define p2 where "p2 = (trk + uint (tracks g)) * tb"
  define p3 where "p3 = (2 * trk + 1) * tb"
  have r1: "0 \<le> p1 \<and> p1 \<le> 80 * (18 * 1024)"
  proof -
    have "trk * tb \<le> 80 * (18 * 1024)" using assms b tb tb0 by (intro mult_mono) auto
    then show ?thesis using assms tb0 by (simp add: p1_def)
  qed
  have r2: "0 \<le> p2 \<and> p2 \<le> 161 * (18 * 1024)"
    unfolding p2_def using k[of "trk + uint (tracks g)"] assms b by auto
  have r3: "0 \<le> p3 \<and> p3 \<le> 161 * (18 * 1024)"
    unfolding p3_def using k[of "2 * trk + 1"] assms b by auto
  have "spec_offset g sec trk side =
      (if side = 0 then (if sides g = SIDES_INTERLEAVED then 2 * p1 else p1)
       else if sides g = SIDES_SEQUENTIAL then p2 else p3) + sb"
    by (simp add: spec_offset_def Let_def tb_def p1_def p2_def p3_def sb_def)
  then show ?thesis using r1 r2 r3 sb by auto
qed

lemma io_seek_offset_catalog:
  assumes "g \<in> set catalog" "0 \<le> trk" "trk < uint (tracks g)" "0 \<le> sec"
    "sec < uint (sectors_per_track g)" "side = 0 \<or> side = 1"
  shows "uint (io_seek_offset g (word_of_int sec) (word_of_int trk) (word_of_int side))
         = spec_offset g sec trk side"
proof -
  have "trk < 256" using assms(3) uint_lt2p[of "tracks g"] by simp
  moreover have "sec < 256" using assms(5) uint_lt2p[of "sectors_per_track g"] by simp
  ultimately have "io_seek_offset g (word_of_int sec) (word_of_int trk) (word_of_int side)
         = word_of_int (spec_offset g sec trk side)"
    using assms by (intro io_seek_offset_word) auto
  then show ?thesis using spec_offset_range[OF assms]
    by (simp add: uint_word_of_int)
qed

section \<open>C3: the byte offset of an accepted sector request\<close>

lemma adfs_l_catalog: "adfs_l \<in> set catalog"
  by (simp add: adfs_l_def catalog_def adfs_new_formats_def adfs_old_formats_def)

lemma solidisk_seq80_catalog: "solidisk_seq80 \<in> set catalog"
  by (simp add: solidisk_seq80_def catalog_def adfs_new_formats_def adfs_old_formats_def
      dfs_formats_def)

lemma guards_adfs_l: "sector_guards (example_machine adfs_l 10) adfs_l 0 3 10 1 1"
  by (simp add: sector_guards_def example_machine_def initial_machine_def adfs_l_def geo_def
      density_ok_def)

lemma guards_solidisk_seq80:
  "sector_guards (example_machine solidisk_seq80 10) solidisk_seq80 1 3 10 1 1"
  by (simp add: sector_guards_def example_machine_def initial_machine_def solidisk_seq80_def
      geo_def density_ok_def)

text \<open>
  Claim C3.  For every geometry of the catalog bound to a drive and every sector,
  track and side (0 or 1) that pass the guards of read-sector and write-sector, the
  operation is accepted and leaves the stream of the drive positioned at the byte
  offset of the specification: track times bytes-per-track on side 0, doubled for
  interleaved sides; (track + tracks) times bytes-per-track on side 1 of a sequential
  layout and (2 * track + 1) times bytes-per-track on side 1 otherwise; plus sector
  times sector size.  For a 16-sector, 256-byte interleaved geometry, track 10 side 1
  is at (10*2+1)*16*256 + sector*256, and for the sequential 80-track counterpart at
  (10+80)*16*256 + sector*256.
\<close>

theorem sector_offset_position:
  assumes "sector_guards m g drive sec trk side dens" and "g \<in> set catalog"
    and "side = 0 \<or> side = 1" and "sdf_fp m (nat drive) = Some f"
  shows "(\<exists>m'. sdf_readsector drive sec trk side dens m = Some m' \<and>
               map_option pos (sdf_fp m' (nat drive)) = Some (nat (spec_offset g sec trk side)))
       \<and> (\<exists>m'. sdf_writesector drive sec trk side dens m = Some m' \<and>
               map_option pos (sdf_fp m' (nat drive)) = Some (nat (spec_offset g sec trk side)))
       \<and> (sides g = SIDES_INTERLEAVED \<and> sectors_per_track g = 16 \<and> sector_size g = 256 \<and>
            trk = 10 \<and> side = 1
            \<longrightarrow> spec_offset g sec trk side = (10 * 2 + 1) * 16 * 256 + sec * 256)
       \<and> (sides g = SIDES_SEQUENTIAL \<and> tracks g = 80 \<and> sectors_per_track g = 16 \<and>
            sector_size g = 256 \<and> trk = 10 \<and> side = 1
            \<longrightarrow> spec_offset g sec trk side = (10 + 80) * 16 * 256 + sec * 256)"
proof -
  from assms(1) have rng: "0 \<le> trk" "trk < uint (tracks g)" "0 \<le> sec"
    "sec < uint (sectors_per_track g)"
    by (auto simp: sector_guards_def)
  have off: "unat (io_seek_offset g (word_of_int sec) (word_of_int trk) (word_of_int side))
             = nat (spec_offset g sec trk side)"
    using io_seek_offset_catalog[OF assms(2) rng assms(3)] by (simp add: unat_eq_nat_uint)
  have r: "\<exists>m'. sdf_readsector drive sec trk side dens m = Some m' \<and>
               map_option pos (sdf_fp m' (nat drive)) = Some (nat (spec_offset g sec trk side))"
    by (simp add: sdf_readsector_ok[OF assms(1,4)] fseek_set_def off)
  have w: "\<exists>m'. sdf_writesector drive sec trk side dens m = Some m' \<and>
               map_option pos (sdf_fp m' (nat drive)) = Some (nat (spec_offset g sec trk side))"
    by (simp add: sdf_writesector_ok[OF assms(1,4)] fseek_set_def off)
  have e1: "sides g = SIDES_INTERLEAVED \<and> sectors_per_track g = 16 \<and> sector_size g = 256 \<and>
            trk = 10 \<and> side = 1
            \<longrightarrow> spec_offset g sec trk side = (10 * 2 + 1) * 16 * 256 + sec * 256"
    by (simp add: spec_offset_def)
  have e2: "sides g = SIDES_SEQUENTIAL \<and> tracks g = 80 \<and> sectors_per_track g = 16 \<and>
            sector_size g = 256 \<and> trk = 10 \<and> side = 1
            \<longrightarrow> spec_offset g sec trk side = (10 + 80) * 16 * 256 + sec * 256"
    by (simp add: spec_offset_def)
  from r w e1 e2 show ?thesis by blast
qed

text \<open>
  The two instances of the claim: sector 3 of track 10, side 1, on drive 0 with the
  interleaved ADFS L geometry (offset 86784) and on drive 1 with the sequential
  80-track Solidisk geometry (offset 369408).
\<close>

theorem sector_offset_position_witness:
  "sector_guards (example_machine adfs_l 10) adfs_l 0 3 10 1 1 \<and> adfs_l \<in> set catalog \<and>
   sector_guards (example_machine solidisk_seq80 10) solidisk_seq80 1 3 10 1 1 \<and>
   solidisk_seq80 \<in> set catalog \<and>
   (\<exists>m'. sdf_readsector 0 3 10 1 1 (example_machine adfs_l 10) = Some m' \<and>
         map_option pos (sdf_fp m' 0) = Some ((10 * 2 + 1) * 16 * 256 + 3 * 256)) \<and>
   (\<exists>m'. sdf_writesector 1 3 10 1 1 (example_machine solidisk_seq80 10) = Some m' \<and>
         map_option pos (sdf_fp m' 1) = Some ((10 + 80) * 16 * 256 + 3 * 256))"
proof -
  have f0: "sdf_fp (example_machine adfs_l 10) (nat 0) = Some (blank_image 0)"
    by (simp add: example_machine_def)
  have f1: "sdf_fp (example_machine solidisk_seq80 10) (nat 1) = Some (blank_image 0)"
    by (simp add: example_machine_def)
  have v0: "nat (spec_offset adfs_l 3 10 1) = 86784"
    by (simp add: spec_offset_def adfs_l_def geo_def)
  have v1: "nat (spec_offset solidisk_seq80 3 10 1) = 369408"
    by (simp add: spec_offset_def solidisk_seq80_def geo_def)
  have a: "\<exists>m'. sdf_readsector 0 3 10 1 1 (example_machine adfs_l 10) = Some m' \<and>
         map_option pos (sdf_fp m' 0) = Some 86784"
    using sector_offset_position[OF guards_adfs_l adfs_l_catalog _ f0] v0 by simp
  have b: "\<exists>m'. sdf_writesector 1 3 10 1 1 (example_machine solidisk_seq80 10) = Some m' \<and>
         map_option pos (sdf_fp m' 1) = Some 369408"
    using sector_offset_position[OF guards_solidisk_seq80 solidisk_seq80_catalog _ f1] v1
    by simp
  from a b show ?thesis
    using guards_adfs_l adfs_l_catalog guards_solidisk_seq80 solidisk_seq80_catalog by simp
qed

section \<open>C10: closing a drive goes through the entry of drive 0\<close>

lemma one_drive_loaded_bind:
  "d = 0 \<or> d = 1 \<Longrightarrow>
   sdf_bind d dfs_single80 (blank_image 0) (initial_machine WD1770_ACORN)
     = Some (one_drive_loaded (nat d))"
  by (auto simp: sdf_bind_def one_drive_loaded_def arr_upd_in initial_machine_def fun_upd_def)

lemma sdf_close_in:
  assumes "d = 0 \<or> d = 1"
  shows "\<exists>m'. sdf_close d m = Some m' \<and> geometry m' (nat d) = None \<and> sdf_fp m' (nat d) = None
              \<and> drives m' = drives m"
  using assms
  by (auto simp: sdf_close_def NUM_DRIVES_def arr_in arr_upd_in split: option.splits)

lemma sdf_close_drives:
  "sdf_close d (m\<lparr>drives := ds\<rparr>) = map_option (\<lambda>m'. m'\<lparr>drives := ds\<rparr>) (sdf_close d m)"
  by (auto simp: sdf_close_def arr_def arr_upd_def split: option.splits)

text \<open>
  Claim C10.  For a drive index \<open>d\<close> of 0 or 1, \<open>disc_close d\<close> calls
  the close function bound to drive 0 with argument \<open>d\<close> when drive 0 has
  one (the geometry of drive \<open>d\<close> is then unbound and its stream closed), and
  changes nothing at all when drive 0 has none, whatever is bound to drive
  \<open>d\<close>; the drive entry of drive 1 has no influence on the result.
\<close>

theorem disc_close_drive0:
  assumes "d = 0 \<or> d = 1"
  shows "(close (drives m 0) = Some SDF \<longrightarrow>
            disc_close d m = sdf_close d m \<and>
            (\<exists>m'. disc_close d m = Some m' \<and> geometry m' (nat d) = None \<and>
                  sdf_fp m' (nat d) = None))
       \<and> (close (drives m 0) = None \<longrightarrow> disc_close d m = Some m)
       \<and> disc_close d (m\<lparr>drives := (drives m)(1 := dr)\<rparr>)
           = map_option (\<lambda>m'. m'\<lparr>drives := (drives m)(1 := dr)\<rparr>) (disc_close d m)"
proof -
  have a: "close (drives m 0) = Some SDF \<longrightarrow>
            disc_close d m = sdf_close d m \<and>
            (\<exists>m'. disc_close d m = Some m' \<and> geometry m' (nat d) = None \<and>
                  sdf_fp m' (nat d) = None)"
    using sdf_close_in[OF assms, of m] by (auto simp: disc_close_def)
  have b: "close (drives m 0) = None \<longrightarrow> disc_close d m = Some m"
    by (simp add: disc_close_def)
  have c: "disc_close d (m\<lparr>drives := (drives m)(1 := dr)\<rparr>)
           = map_option (\<lambda>m'. m'\<lparr>drives := (drives m)(1 := dr)\<rparr>) (disc_close d m)"
    by (cases "close (drives m 0)") (auto simp: disc_close_def sdf_close_drives split: backend.splits)
  from a b c show ?thesis by blast
qed

text \<open>
  With an image bound to drive 1 only, closing drive 1 leaves its geometry bound and
  its stream open; with an image bound to drive 0, closing drive 0 unbinds it.
\<close>

theorem disc_close_drive0_witness:
  "close (drives (one_drive_loaded 1) 0) = None \<and>
   geometry (one_drive_loaded 1) 1 = Some dfs_single80 \<and>
   sdf_fp (one_drive_loaded 1) 1 = Some (blank_image 0) \<and>
   close (drives (one_drive_loaded 1) 1) = Some SDF \<and>
   disc_close 1 (one_drive_loaded 1) = Some (one_drive_loaded 1) \<and>
   close (drives (one_drive_loaded 0) 0) = Some SDF \<and>
   geometry (one_drive_loaded 0) 0 = Some dfs_single80 \<and>
   (\<exists>m'. disc_close 0 (one_drive_loaded 0) = Some m' \<and> geometry m' 0 = None \<and> sdf_fp m' 0 = None)"
proof -
  have n: "close (drives (one_drive_loaded 1) 0) = None"
    by (simp add: one_drive_loaded_def null_DRIVE_def)
  have s: "close (drives (one_drive_loaded 0) 0) = Some SDF"
    by (simp add: one_drive_loaded_def sdf_DRIVE_def)
  have a: "disc_close 1 (one_drive_loaded 1) = Some (one_drive_loaded 1)"
    using disc_close_drive0[of 1 "one_drive_loaded 1" null_DRIVE] n by fastforce
  have b: "\<exists>m'. disc_close 0 (one_drive_loaded 0) = Some m' \<and> geometry m' 0 = None \<and> sdf_fp m' 0 = None"
    using disc_close_drive0[of 0 "one_drive_loaded 0" null_DRIVE] s by fastforce
  from a b n s show ?thesis
    by (simp add: one_drive_loaded_def sdf_DRIVE_def)
qed

section \<open>C1: commands written while the controller is busy\<close>






lemma backend_not_idle:
  assumes "state m \<noteq> ST_IDLE"
  shows "sdf_readsector d s t si de m = Some m" "sdf_writesector d s t si de m = Some m"
    "sdf_readaddress d t si de m = Some m" "sdf_format d t si de m = Some m"
  using assms
  by (simp_all add: sdf_readsector_def sdf_writesector_def sdf_readaddress_def sdf_format_def)

subsection \<open>The board, the selected drive and the bound backends are left alone\<close>







lemma emit_keeps [simp]:
  "WD1770 (emit e m) = WD1770 m" "curdrive (emit e m) = curdrive m"
  "drives (emit e m) = drives m" "state (emit e m) = state m"
  by (simp_all add: emit_def)






lemma set_status_keeps [simp]:
  "WD1770 (set_status v m) = WD1770 m" "drives (set_status v m) = drives m"
  "state (set_status v m) = state m" "wd1770 (set_status v m) = (wd1770 m)\<lparr>status := v\<rparr>"
  by (simp_all add: set_status_def)

lemma set_curtrack_keeps [simp]:
  "WD1770 (set_curtrack t m) = WD1770 m" "drives (set_curtrack t m) = drives m"
  "state (set_curtrack t m) = state m"
  by (simp_all add: set_curtrack_def)








subsection \<open>Writes on the bus\<close>

lemma write_ctrl_trace [simp]:
  "trace (write_ctrl_acorn v m) = trace m" "trace (write_ctrl_master v m) = trace m"
  "trace (write_ctrl_stl v m) = trace m"
  "WD1770 (write_ctrl_acorn v m) = WD1770 m" "WD1770 (write_ctrl_master v m) = WD1770 m"
  "WD1770 (write_ctrl_stl v m) = WD1770 m"
  "state (write_ctrl_acorn v m) = state m" "state (write_ctrl_master v m) = state m"
  "state (write_ctrl_stl v m) = state m"
  by (simp_all add: write_ctrl_acorn_def write_ctrl_master_def write_ctrl_stl_def
      wd1770_reset_def set_status_def Let_def)








subsection \<open>The second call of Write Sector\<close>

























section \<open>C9: the status after Restore\<close>

lemma disc_seek_defined:
  assumes "d = 0 \<or> d = 1"
  shows "\<exists>m'. disc_seek d t m = Some m'"
  using assms
  by (auto simp: disc_seek_def sdf_seek_def arr_in arr_upd_in NUM_DRIVES_def
      split: option.splits backend.splits)

text \<open>
  Claim C9.  With the busy bit clear, a command byte with upper nibble 0 (Restore)
  sets the current track to 0, calls \<open>disc_seek\<close> with track 0 on the current
  drive and stores the status 0xA1: the motor-on bit 0x80, the spin-up bit 0x20 and the
  busy bit 0x01.  The track-0 bit 0x04 is clear: the macro \<open>track0\<close> yields 4
  only for a current track other than 0, and the current track is 0 by then.
\<close>

theorem restore_status:
  assumes "\<not> busy m" and "a AND 0x03 = 0" and "drop_bit 4 v = 0"
    and "curdrive m = 0 \<or> curdrive m = 1"
  shows "\<exists>m'. write_1770 a v m = Some m' \<and> curtrack (wd1770 m') = 0 \<and>
              trace m' = trace m @ [Disc_seek (curdrive m) 0] \<and>
              status (wd1770 m') = 0xA1 \<and> status (wd1770 m') AND 0x04 = 0"
proof -
  define m1 where "m1 = wd1770_spinup (m\<lparr>wd1770 := (wd1770 m)\<lparr>command := v\<rparr>\<rparr>)"
  define m2 where "m2 = set_status (0x80 OR 0x21 OR track0 (set_curtrack 0 m1)) (set_curtrack 0 m1)"
  have w: "write_1770 a v m = disc_seek (curdrive m2) 0 m2"
    using assms(1-3)
    by (simp add: write_1770_def busy_def command_1770_def Let_def m1_def m2_def)
  have cd: "curdrive m2 = curdrive m"
    by (simp add: m2_def m1_def wd1770_spinup_def)
  have st: "status (wd1770 m2) = 0xA1"
    by (simp add: m2_def track0_def)
  have ct: "curtrack (wd1770 m2) = 0"
    by (simp add: m2_def)
  have tr: "trace m2 = trace m"
    by (simp add: m2_def m1_def wd1770_spinup_def)
  from disc_seek_defined[of "curdrive m2" 0 m2] assms(4) cd
  obtain m' where s: "disc_seek (curdrive m2) 0 m2 = Some m'" by auto
  from disc_seek_frame[OF s] have "wd1770 m' = wd1770 m2" "trace m' = trace m2 @ [Disc_seek (curdrive m2) 0]"
    by auto
  with w s st ct tr cd show ?thesis by simp
qed

text \<open>Restore written to the machine as it starts up.\<close>

theorem restore_status_witness:
  "\<not> busy (initial_machine WD1770_ACORN) \<and>
   (\<exists>m'. write_1770 0 0x00 (initial_machine WD1770_ACORN) = Some m' \<and>
         curtrack (wd1770 m') = 0 \<and> trace m' = [Disc_seek 0 0] \<and>
         status (wd1770 m') = 0xA1 \<and> status (wd1770 m') AND 0x04 = 0)"
proof -
  have nb: "\<not> busy (initial_machine WD1770_ACORN)"
    by (simp add: busy_def initial_machine_def)
  have cd: "curdrive (initial_machine WD1770_ACORN) = 0" "trace (initial_machine WD1770_ACORN) = []"
    by (simp_all add: initial_machine_def)
  from restore_status[OF nb, of 0 0] cd nb show ?thesis by simp
qed

section \<open>C4: a failed guard starts the not-found countdown\<close>

lemma sector_guard_failure:
  assumes "state m = ST_IDLE" "0 \<le> drive" "\<not> (\<exists>g. sector_guards m g drive sec trk side dens)"
  shows "sdf_readsector drive sec trk side dens m = Some (start_notfound m)"
    and "sdf_writesector drive sec trk side dens m = Some (start_notfound m)"
proof -
  show "sdf_readsector drive sec trk side dens m = Some (start_notfound m)"
  proof (cases "drive < NUM_DRIVES")
    case False
    then show ?thesis using assms(1) by (simp add: sdf_readsector_def)
  next
    case True
    then have d: "drive = 0 \<or> drive = 1" using assms(2) by (auto simp: NUM_DRIVES_def)
    show ?thesis
    proof (cases "geometry m (nat drive)")
      case None
      then show ?thesis using assms(1) True by (simp add: sdf_readsector_def arr_in[OF d])
    next
      case (Some g)
      from assms(3) have "\<not> sector_guards m g drive sec trk side dens" by blast
      then show ?thesis using assms(1) True Some d
        by (auto simp: sdf_readsector_def arr_in[OF d] sector_guards_def)
    qed
  qed
  show "sdf_writesector drive sec trk side dens m = Some (start_notfound m)"
  proof (cases "drive < NUM_DRIVES")
    case False
    then show ?thesis using assms(1) by (simp add: sdf_writesector_def)
  next
    case True
    then have d: "drive = 0 \<or> drive = 1" using assms(2) by (auto simp: NUM_DRIVES_def)
    show ?thesis
    proof (cases "geometry m (nat drive)")
      case None
      then show ?thesis using assms(1) True by (simp add: sdf_writesector_def arr_in[OF d])
    next
      case (Some g)
      from assms(3) have "\<not> sector_guards m g drive sec trk side dens" by blast
      then show ?thesis using assms(1) True Some d
        by (auto simp: sdf_writesector_def arr_in[OF d] sector_guards_def)
    qed
  qed
qed

lemma track_guard_failure:
  assumes "state m = ST_IDLE" "0 \<le> drive" "\<not> (\<exists>g. track_guards m g drive trk side dens)"
  shows "sdf_readaddress drive trk side dens m = Some (start_notfound m)"
    and "sdf_format drive trk side dens m = Some (start_notfound m)"
proof -
  show "sdf_readaddress drive trk side dens m = Some (start_notfound m)"
  proof (cases "drive < NUM_DRIVES")
    case False
    then show ?thesis using assms(1) by (simp add: sdf_readaddress_def)
  next
    case True
    then have d: "drive = 0 \<or> drive = 1" using assms(2) by (auto simp: NUM_DRIVES_def)
    show ?thesis
    proof (cases "geometry m (nat drive)")
      case None
      then show ?thesis using assms(1) True by (simp add: sdf_readaddress_def arr_in[OF d])
    next
      case (Some g)
      from assms(3) have "\<not> track_guards m g drive trk side dens" by blast
      then show ?thesis using assms(1) True Some d
        by (auto simp: sdf_readaddress_def arr_in[OF d] track_guards_def)
    qed
  qed
  show "sdf_format drive trk side dens m = Some (start_notfound m)"
  proof (cases "drive < NUM_DRIVES")
    case False
    then show ?thesis using assms(1) by (simp add: sdf_format_def)
  next
    case True
    then have d: "drive = 0 \<or> drive = 1" using assms(2) by (auto simp: NUM_DRIVES_def)
    show ?thesis
    proof (cases "geometry m (nat drive)")
      case None
      then show ?thesis using assms(1) True by (simp add: sdf_format_def arr_in[OF d])
    next
      case (Some g)
      from assms(3) have "\<not> track_guards m g drive trk side dens" by blast
      then show ?thesis using assms(1) True Some d
        by (auto simp: sdf_format_def arr_in[OF d] track_guards_def)
    qed
  qed
qed

lemma notfound_countdown_polls:
  assumes "state m = ST_NOTFOUND" "count m = 500"
  shows "(\<forall>n. fst (divider (sdf_time m) n) < 500 \<longrightarrow>
              (\<exists>m'. iterate n sdf_poll m = Some m' \<and> state m' = ST_NOTFOUND \<and>
                    trace m' = trace m))
       \<and> (\<forall>n. fst (divider (sdf_time m) n) = 500 \<longrightarrow>
              (\<exists>m'. iterate n sdf_poll m = Some m' \<and> state m' = ST_IDLE \<and>
                    trace m' = trace m @ [Fdc_notfound]))"
proof (intro conjI allI impI)
  fix n assume "fst (divider (sdf_time m) n) < 500"
  with notfound_countdown_500[OF assms]
  obtain m' where "iterate (fst (divider (sdf_time m) n)) sdf_tick m = Some m'"
    "state m' = ST_NOTFOUND" "trace m' = trace m" by blast
  then show "\<exists>m'. iterate n sdf_poll m = Some m' \<and> state m' = ST_NOTFOUND \<and> trace m' = trace m"
    by (simp add: polls_are_ticks)
next
  fix n assume "fst (divider (sdf_time m) n) = 500"
  with notfound_countdown_500[OF assms]
  obtain m' where "iterate (fst (divider (sdf_time m) n)) sdf_tick m = Some m'"
    "state m' = ST_IDLE" "trace m' = trace m @ [Fdc_notfound]" by auto
  then show "\<exists>m'. iterate n sdf_poll m = Some m' \<and> state m' = ST_IDLE \<and>
                   trace m' = trace m @ [Fdc_notfound]"
    by (simp add: polls_are_ticks)
qed

text \<open>
  Claim C4.  Let the backend be idle and the drive index not negative.  If the guards
  of read-sector or write-sector fail (drive index beyond the last drive, no geometry
  bound, density mismatch, track not the last-seeked one or out of range, sector out of
  range, side other than 0 on a single-sided geometry), or the guards of read-address
  or format fail (the same without the sector), the operation leaves the backend in the
  not-found state with a count of 500 and has called nothing.  The first 499 divided
  poll ticks keep it there and call nothing; the 500th calls the not-found callback,
  and only that, and returns the backend to idle.  The same in calls of
  \<open>sdf_poll\<close>: as long as the divider has let fewer than 500 calls through,
  the backend counts down; once it has let 500 through, not-found has fired and the
  backend is idle.  The data-ready callback is never called.
\<close>

theorem guard_failure_countdown:
  assumes "state m = ST_IDLE" and "0 \<le> drive"
    and "(\<not> (\<exists>g. sector_guards m g drive sec trk side dens) \<and>
            (r = sdf_readsector drive sec trk side dens m \<or>
             r = sdf_writesector drive sec trk side dens m))
         \<or> (\<not> (\<exists>g. track_guards m g drive trk side dens) \<and>
            (r = sdf_readaddress drive trk side dens m \<or>
             r = sdf_format drive trk side dens m))"
  shows "\<exists>m1. r = Some m1 \<and> state m1 = ST_NOTFOUND \<and> count m1 = 500 \<and> trace m1 = trace m \<and>
          (\<forall>n<500. \<exists>m'. iterate n sdf_tick m1 = Some m' \<and> state m' = ST_NOTFOUND \<and>
                          trace m' = trace m) \<and>
          (\<exists>m'. iterate 500 sdf_tick m1 = Some m' \<and> state m' = ST_IDLE \<and>
                trace m' = trace m @ [Fdc_notfound]) \<and>
          (\<forall>n. fst (divider (sdf_time m) n) < 500 \<longrightarrow>
              (\<exists>m'. iterate n sdf_poll m1 = Some m' \<and> state m' = ST_NOTFOUND \<and>
                    trace m' = trace m)) \<and>
          (\<forall>n. fst (divider (sdf_time m) n) = 500 \<longrightarrow>
              (\<exists>m'. iterate n sdf_poll m1 = Some m' \<and> state m' = ST_IDLE \<and>
                    trace m' = trace m @ [Fdc_notfound]))"
proof -
  from assms have r: "r = Some (start_notfound m)"
    using sector_guard_failure[of m drive sec trk side dens]
      track_guard_failure[of m drive trk side dens] by auto
  have s: "state (start_notfound m) = ST_NOTFOUND" "count (start_notfound m) = 500"
    "trace (start_notfound m) = trace m" "sdf_time (start_notfound m) = sdf_time m"
    by (simp_all add: start_notfound_def)
  from notfound_countdown_500[OF s(1,2)] notfound_countdown_polls[OF s(1,2)] r s
  show ?thesis by simp
qed

text \<open>
  A single-sided 80-track DFS image with the head on track 39: reading sector 9 of
  track 39 on side 1 fails the side guard, and formatting with the double-density flag
  fails the density guard.  With the divider at 0, the 500th divided tick is the
  8500th call of \<open>sdf_poll\<close>.
\<close>

lemma side1_rejected:
  "\<not> (\<exists>g. sector_guards (example_machine dfs_single80 39) g 0 9 39 1 0)"
  by (auto simp: sector_guards_def example_machine_def initial_machine_def dfs_single80_def geo_def)

lemma density_rejected:
  "\<not> (\<exists>g. track_guards (example_machine dfs_single80 39) g 1 39 0 1)"
  by (auto simp: track_guards_def example_machine_def initial_machine_def dfs_single80_def geo_def
      density_ok_def)

lemma example_machine_start:
  "state (example_machine g t) = ST_IDLE" "trace (example_machine g t) = []"
  "sdf_time (example_machine g t) = 0"
  by (simp_all add: example_machine_def initial_machine_def)

theorem guard_failure_countdown_witness:
  "state (example_machine dfs_single80 39) = ST_IDLE \<and>
   \<not> (\<exists>g. sector_guards (example_machine dfs_single80 39) g 0 9 39 1 0) \<and>
   (\<exists>m1. sdf_readsector 0 9 39 1 0 (example_machine dfs_single80 39) = Some m1 \<and>
         state m1 = ST_NOTFOUND \<and> count m1 = 500 \<and>
         (\<exists>m'. iterate 499 sdf_tick m1 = Some m' \<and> state m' = ST_NOTFOUND \<and> trace m' = []) \<and>
         (\<exists>m'. iterate 500 sdf_tick m1 = Some m' \<and> state m' = ST_IDLE \<and>
               trace m' = [Fdc_notfound]) \<and>
         (\<exists>m'. iterate (17 * 499 + 16) sdf_poll m1 = Some m' \<and> state m' = ST_NOTFOUND \<and>
               trace m' = []) \<and>
         (\<exists>m'. iterate (17 * 500) sdf_poll m1 = Some m' \<and> state m' = ST_IDLE \<and>
               trace m' = [Fdc_notfound])) \<and>
   \<not> (\<exists>g. track_guards (example_machine dfs_single80 39) g 1 39 0 1) \<and>
   (\<exists>m1. sdf_format 1 39 0 1 (example_machine dfs_single80 39) = Some m1 \<and>
         state m1 = ST_NOTFOUND \<and> count m1 = 500 \<and>
         (\<exists>m'. iterate 500 sdf_tick m1 = Some m' \<and> state m' = ST_IDLE \<and>
               trace m' = [Fdc_notfound]))"
proof -
  let ?m = "example_machine dfs_single80 39"
  have d1: "fst (divider (sdf_time ?m) (17 * 499 + 16)) < 500"
    using divider_zero[of 16 499] by (simp only: example_machine_start) simp
  have d2: "fst (divider (sdf_time ?m) (17 * 500)) = 500"
    using divider_zero[of 0 500] by (simp only: example_machine_start) simp
  have z: "(0::int) \<le> 0" "(0::int) \<le> 1" by simp_all
  from guard_failure_countdown[OF example_machine_start(1) z(1)
      disjI1[OF conjI[OF side1_rejected disjI1[OF refl]]]]
  obtain m1 where m1: "sdf_readsector 0 9 39 1 0 ?m = Some m1" "state m1 = ST_NOTFOUND"
    "count m1 = 500"
    "\<forall>n<500. \<exists>m'. iterate n sdf_tick m1 = Some m' \<and> state m' = ST_NOTFOUND \<and>
                          trace m' = trace ?m"
    "\<exists>m'. iterate 500 sdf_tick m1 = Some m' \<and> state m' = ST_IDLE \<and>
                trace m' = trace ?m @ [Fdc_notfound]"
    "\<forall>n. fst (divider (sdf_time ?m) n) < 500 \<longrightarrow>
              (\<exists>m'. iterate n sdf_poll m1 = Some m' \<and> state m' = ST_NOTFOUND \<and>
                    trace m' = trace ?m)"
    "\<forall>n. fst (divider (sdf_time ?m) n) = 500 \<longrightarrow>
              (\<exists>m'. iterate n sdf_poll m1 = Some m' \<and> state m' = ST_IDLE \<and>
                    trace m' = trace ?m @ [Fdc_notfound])"
    by blast
  from m1(4) have a: "\<exists>m'. iterate 499 sdf_tick m1 = Some m' \<and> state m' = ST_NOTFOUND \<and> trace m' = []"
    by (simp add: example_machine_start)
  from m1(5) have b: "\<exists>m'. iterate 500 sdf_tick m1 = Some m' \<and> state m' = ST_IDLE \<and>
               trace m' = [Fdc_notfound]"
    by (simp add: example_machine_start)
  from m1(6) d1 have c: "\<exists>m'. iterate (17 * 499 + 16) sdf_poll m1 = Some m' \<and>
      state m' = ST_NOTFOUND \<and> trace m' = []"
    using example_machine_start(2)[of dfs_single80 39] by metis
  from m1(7) d2 have d: "\<exists>m'. iterate (17 * 500) sdf_poll m1 = Some m' \<and> state m' = ST_IDLE \<and>
               trace m' = [Fdc_notfound]"
    using example_machine_start(2)[of dfs_single80 39] by (metis append_Nil)
  from guard_failure_countdown[OF example_machine_start(1) z(2)
      disjI2[OF conjI[OF density_rejected disjI2[OF refl]]]]
  obtain m2 where m2: "sdf_format 1 39 0 1 ?m = Some m2" "state m2 = ST_NOTFOUND"
    "count m2 = 500"
    "\<exists>m'. iterate 500 sdf_tick m2 = Some m' \<and> state m' = ST_IDLE \<and>
                trace m' = trace ?m @ [Fdc_notfound]"
    by blast
  from m2(4) have e: "\<exists>m'. iterate 500 sdf_tick m2 = Some m' \<and> state m' = ST_IDLE \<and>
               trace m' = [Fdc_notfound]"
    by (simp add: example_machine_start)
  show ?thesis
    using example_machine_start(1) side1_rejected density_rejected m1(1,2,3) a b c d m2(1,2,3) e
    by blast
qed

section \<open>C6: format track\<close>

lemma fdc_notfound_fp [simp]: "sdf_fp (fdc_notfound m) = sdf_fp m"
  by (simp add: callback_defs)

text \<open>
  Claim C6.  A format-track request that passes every guard (backend idle, drive index
  valid, geometry bound, density matching, track the last-seeked one and in range, side
  permitted) positions the stream and sets the formatting state, but control then runs
  on into the shared tail: the operation returns with the backend in the not-found
  state and a count of 500, never in the formatting state.  500 divided poll ticks
  later the not-found callback fires and the backend is idle; no filler byte was
  written, the bytes of the image are as before.
\<close>

theorem format_takes_notfound_path:
  assumes "track_guards m g drive trk side dens" and "sdf_fp m (nat drive) = Some f"
  shows "\<exists>m'. sdf_format drive trk side dens m = Some m' \<and>
              state m' = ST_NOTFOUND \<and> count m' = 500 \<and> state m' \<noteq> ST_FORMAT \<and>
              trace m' = trace m \<and>
              map_option contents (sdf_fp m' (nat drive)) = Some (contents f) \<and>
              (\<exists>m''. iterate 500 sdf_tick m' = Some m'' \<and> state m'' = ST_IDLE \<and>
                     trace m'' = trace m @ [Fdc_notfound] \<and>
                     map_option contents (sdf_fp m'' (nat drive)) = Some (contents f))"
proof -
  let ?m' = "m\<lparr>sdf_fp := (sdf_fp m)(nat drive := Some (fseek_set
                     (unat (io_seek_offset g 0 (word_of_int trk) (word_of_int side))) f)),
                   sdf_drive := word_of_int drive, sdf_side := word_of_int side,
                   sdf_track := word_of_int trk, sdf_sector := 0,
                   count := 500, state := ST_NOTFOUND\<rparr>"
  have f: "sdf_format drive trk side dens m = Some ?m'"
    by (rule sdf_format_accepted[OF assms])
  have s: "state ?m' = ST_NOTFOUND" "unat (count ?m') = Suc 499" by simp_all
  have "iterate 500 sdf_tick ?m' = Some ((fdc_notfound (?m'\<lparr>count := 0\<rparr>))\<lparr>state := ST_IDLE\<rparr>)"
    using notfound_ticks_all[OF s] by (simp del: iterate.simps)
  then have "\<exists>m''. iterate 500 sdf_tick ?m' = Some m'' \<and> state m'' = ST_IDLE \<and>
                     trace m'' = trace m @ [Fdc_notfound] \<and>
                     map_option contents (sdf_fp m'' (nat drive)) = Some (contents f)"
    by (simp add: fseek_set_def del: iterate.simps)
  then show ?thesis
    unfolding f by (simp add: fseek_set_def del: iterate.simps)
qed

text \<open>Formatting track 39, side 0, of a single-sided DFS image with the head on track 39.\<close>

lemma track0_accepted:
  "track_guards (example_machine dfs_single80 39) dfs_single80 0 39 0 0"
  by (simp add: track_guards_def example_machine_def initial_machine_def dfs_single80_def geo_def
      density_ok_def)

lemma example_machine_fp: "sdf_fp (example_machine g t) (nat 0) = Some (blank_image 0)"
  by (simp add: example_machine_def)

theorem format_takes_notfound_path_witness:
  "track_guards (example_machine dfs_single80 39) dfs_single80 0 39 0 0 \<and>
   (\<exists>m'. sdf_format 0 39 0 0 (example_machine dfs_single80 39) = Some m' \<and>
         state m' = ST_NOTFOUND \<and> count m' = 500 \<and> state m' \<noteq> ST_FORMAT \<and>
         map_option contents (sdf_fp m' 0) = Some [] \<and>
         (\<exists>m''. iterate 500 sdf_tick m' = Some m'' \<and> state m'' = ST_IDLE \<and>
                trace m'' = [Fdc_notfound] \<and> map_option contents (sdf_fp m'' 0) = Some []))"
proof -
  from format_takes_notfound_path[OF track0_accepted example_machine_fp]
  have "\<exists>m'. sdf_format 0 39 0 0 (example_machine dfs_single80 39) = Some m' \<and>
         state m' = ST_NOTFOUND \<and> count m' = 500 \<and> state m' \<noteq> ST_FORMAT \<and>
         map_option contents (sdf_fp m' 0) = Some [] \<and>
         (\<exists>m''. iterate 500 sdf_tick m' = Some m'' \<and> state m'' = ST_IDLE \<and>
                trace m'' = [Fdc_notfound] \<and> map_option contents (sdf_fp m'' 0) = Some [])"
    by (simp add: blank_image_def example_machine_start del: iterate.simps) blast
  with track0_accepted show ?thesis by blast
qed

section \<open>C7: read address\<close>

lemma fdc_data_simps [simp]:
  "state (fdc_data b m) = state m" "trace (fdc_data b m) = trace m @ [Fdc_data b]"
  "sdf_track (fdc_data b m) = sdf_track m" "sdf_side (fdc_data b m) = sdf_side m"
  "sdf_sector (fdc_data b m) = sdf_sector m" "sdf_drive (fdc_data b m) = sdf_drive m"
  "geometry (fdc_data b m) = geometry m" "sdf_fp (fdc_data b m) = sdf_fp m"
  "count (fdc_data b m) = count m" "writeprot (fdc_data b m) = writeprot m"
  by (simp_all add: callback_defs)

lemma fdc_finishread_simps [simp]:
  "state (fdc_finishread m) = state m" "trace (fdc_finishread m) = trace m @ [Fdc_finishread]"
  "sdf_sector (fdc_finishread m) = sdf_sector m" "sdf_drive (fdc_finishread m) = sdf_drive m"
  "geometry (fdc_finishread m) = geometry m" "sdf_fp (fdc_finishread m) = sdf_fp m"
  "count (fdc_finishread m) = count m" "writeprot (fdc_finishread m) = writeprot m"
  by (simp_all add: callback_defs)

lemma addr_ticks:
  "state m = ST_READ_ADDR0 \<Longrightarrow> sdf_tick m = Some ((fdc_data (sdf_track m) m)\<lparr>state := ST_READ_ADDR1\<rparr>)"
  "state m = ST_READ_ADDR1 \<Longrightarrow> sdf_tick m = Some ((fdc_data (sdf_side m) m)\<lparr>state := ST_READ_ADDR2\<rparr>)"
  "state m = ST_READ_ADDR2 \<Longrightarrow> sdf_tick m = Some ((fdc_data (sdf_sector m) m)\<lparr>state := ST_READ_ADDR3\<rparr>)"
  "state m = ST_READ_ADDR3 \<Longrightarrow> sdf_tick m = Some ((fdc_data 1 m)\<lparr>state := ST_READ_ADDR4\<rparr>)"
  "state m = ST_READ_ADDR4 \<Longrightarrow> sdf_tick m = Some ((fdc_data 0 m)\<lparr>state := ST_READ_ADDR5\<rparr>)"
  "state m = ST_READ_ADDR5 \<Longrightarrow> sdf_tick m = Some ((fdc_data 0 m)\<lparr>state := ST_READ_ADDR6\<rparr>)"
  by (simp_all add: sdf_tick_def)

lemma six_address_ticks:
  assumes "state m = ST_READ_ADDR0"
  shows "\<exists>m6. iterate 6 sdf_tick m = Some m6 \<and> state m6 = ST_READ_ADDR6 \<and>
           trace m6 = trace m @ [Fdc_data (sdf_track m), Fdc_data (sdf_side m),
                                 Fdc_data (sdf_sector m), Fdc_data 1, Fdc_data 0, Fdc_data 0] \<and>
           geometry m6 = geometry m \<and> sdf_drive m6 = sdf_drive m \<and> sdf_fp m6 = sdf_fp m"
  using assms by (simp add: eval_nat_numeral addr_ticks)

lemma addr6_tick:
  assumes "state m = ST_READ_ADDR6" "uint (sdf_drive m) = 0 \<or> uint (sdf_drive m) = 1"
    "geometry m (nat (uint (sdf_drive m))) = Some g"
  shows "\<exists>m'. sdf_tick m = Some m' \<and> state m' = ST_READ_ADDR6 \<and>
              trace m' = trace m @ [Fdc_finishread] \<and> geometry m' = geometry m \<and>
              sdf_drive m' = sdf_drive m"
  using assms by (simp add: sdf_tick_def Let_def arr_in)

lemma addr6_ticks:
  assumes "state m = ST_READ_ADDR6" "uint (sdf_drive m) = 0 \<or> uint (sdf_drive m) = 1"
    "geometry m (nat (uint (sdf_drive m))) = Some g"
  shows "\<exists>m'. iterate n sdf_tick m = Some m' \<and> state m' = ST_READ_ADDR6 \<and>
              trace m' = trace m @ replicate n Fdc_finishread \<and> geometry m' = geometry m \<and>
              sdf_drive m' = sdf_drive m"
  using assms
proof (induction n arbitrary: m)
  case 0
  then show ?case by simp
next
  case (Suc n)
  from addr6_tick[OF Suc.prems] obtain m1 where m1: "sdf_tick m = Some m1"
    "state m1 = ST_READ_ADDR6" "trace m1 = trace m @ [Fdc_finishread]"
    "geometry m1 = geometry m" "sdf_drive m1 = sdf_drive m" by blast
  from Suc.IH[of m1] m1 Suc.prems obtain m' where "iterate n sdf_tick m1 = Some m'"
    "state m' = ST_READ_ADDR6" "trace m' = trace m1 @ replicate n Fdc_finishread"
    "geometry m' = geometry m1" "sdf_drive m' = sdf_drive m1" by auto
  with m1 show ?case by (simp add: replicate_app_Cons_same)
qed

text \<open>
  Claim C7.  A read-address request that passes the guards is accepted, and the next six
  divided poll ticks hand track, side, the sector pointer and the bytes 1, 0, 0 to the
  data-ready callback, in this order.  From then on the backend is in its seventh
  address state and stays there: each further tick calls the finished callback again
  (\<open>n\<close> ticks after the six, \<open>n\<close> calls), the state never becomes
  idle, and a request made then (a read-sector here) is dropped.
\<close>

theorem read_address_stays_busy:
  assumes "track_guards m g drive trk side dens"
  shows "\<exists>m1. sdf_readaddress drive trk side dens m = Some m1 \<and>
           (\<forall>n. \<exists>m'. iterate (6 + n) sdf_tick m1 = Some m' \<and> state m' = ST_READ_ADDR6 \<and>
                 trace m' = trace m @ [Fdc_data (word_of_int trk), Fdc_data (word_of_int side),
                                       Fdc_data (sdf_sector m), Fdc_data 1, Fdc_data 0,
                                       Fdc_data 0] @ replicate n Fdc_finishread \<and>
                 sdf_readsector drive 0 trk side dens m' = Some m')"
proof -
  let ?m1 = "m\<lparr>sdf_drive := word_of_int drive, sdf_side := word_of_int side,
               sdf_track := word_of_int trk, state := ST_READ_ADDR0\<rparr>"
  have r: "sdf_readaddress drive trk side dens m = Some ?m1"
    by (rule sdf_readaddress_accepted[OF assms])
  from assms have d: "drive = 0 \<or> drive = 1" and g: "geometry m (nat drive) = Some g"
    by (simp_all add: track_guards_def)
  from six_address_ticks[of ?m1]
  obtain m6 where m6: "iterate 6 sdf_tick ?m1 = Some m6" "state m6 = ST_READ_ADDR6"
    "trace m6 = trace m @ [Fdc_data (word_of_int trk), Fdc_data (word_of_int side),
                           Fdc_data (sdf_sector m), Fdc_data 1, Fdc_data 0, Fdc_data 0]"
    "geometry m6 = geometry m" "sdf_drive m6 = word_of_int drive"
    by (auto simp del: iterate.simps)
  have ud: "uint (sdf_drive m6) = drive" using m6(5) d by (simp add: drive_word)
  have "\<exists>m'. iterate (6 + n) sdf_tick ?m1 = Some m' \<and> state m' = ST_READ_ADDR6 \<and>
                 trace m' = trace m @ [Fdc_data (word_of_int trk), Fdc_data (word_of_int side),
                                       Fdc_data (sdf_sector m), Fdc_data 1, Fdc_data 0,
                                       Fdc_data 0] @ replicate n Fdc_finishread \<and>
                 sdf_readsector drive 0 trk side dens m' = Some m'" for n
  proof -
    from addr6_ticks[of m6 g n] m6 ud d g
    obtain m' where m': "iterate n sdf_tick m6 = Some m'" "state m' = ST_READ_ADDR6"
      "trace m' = trace m6 @ replicate n Fdc_finishread" by auto
    have "sdf_readsector drive 0 trk side dens m' = Some m'"
      using m'(2) backend_not_idle(1)[of m'] by simp
    with m' m6 show ?thesis by (simp add: iterate_add del: iterate.simps)
  qed
  with r show ?thesis by blast
qed

text \<open>Eight ticks after a read-address of track 39 on a single-sided DFS image: finished has fired twice.\<close>

theorem read_address_stays_busy_witness:
  "track_guards (example_machine dfs_single80 39) dfs_single80 0 39 0 0 \<and>
   (\<exists>m1. sdf_readaddress 0 39 0 0 (example_machine dfs_single80 39) = Some m1 \<and>
      (\<exists>m'. iterate 8 sdf_tick m1 = Some m' \<and> state m' = ST_READ_ADDR6 \<and>
            trace m' = [Fdc_data 39, Fdc_data 0, Fdc_data 0, Fdc_data 1, Fdc_data 0, Fdc_data 0,
                        Fdc_finishread, Fdc_finishread] \<and>
            sdf_readsector 0 0 39 0 0 m' = Some m'))"
proof -
  from read_address_stays_busy[OF track0_accepted]
  obtain m1 where m1: "sdf_readaddress 0 39 0 0 (example_machine dfs_single80 39) = Some m1"
    and all: "\<forall>n. \<exists>m'. iterate (6 + n) sdf_tick m1 = Some m' \<and> state m' = ST_READ_ADDR6 \<and>
                 trace m' = trace (example_machine dfs_single80 39) @
                    [Fdc_data (word_of_int 39), Fdc_data (word_of_int 0),
                     Fdc_data (sdf_sector (example_machine dfs_single80 39)), Fdc_data 1,
                     Fdc_data 0, Fdc_data 0] @ replicate n Fdc_finishread \<and>
                 sdf_readsector 0 0 39 0 0 m' = Some m'"
    by blast
  have sec: "sdf_sector (example_machine dfs_single80 39) = 0"
    by (simp add: example_machine_def initial_machine_def)
  have rep: "replicate 2 Fdc_finishread = [Fdc_finishread, Fdc_finishread]"
    by (simp add: eval_nat_numeral)
  from all[rule_format, of 2]
  have "\<exists>m'. iterate 8 sdf_tick m1 = Some m' \<and> state m' = ST_READ_ADDR6 \<and>
            trace m' = [Fdc_data 39, Fdc_data 0, Fdc_data 0, Fdc_data 1, Fdc_data 0, Fdc_data 0,
                        Fdc_finishread, Fdc_finishread] \<and>
            sdf_readsector 0 0 39 0 0 m' = Some m'"
    by (simp add: example_machine_start sec rep del: iterate.simps)
  with m1 track0_accepted show ?thesis by blast
qed

section \<open>C5: the density guard\<close>

lemma catalog_density:
  "g \<in> set catalog \<Longrightarrow> density g = DENS_SINGLE \<or> density g = DENS_DOUBLE \<or> density g = DENS_QUAD"
  by (auto simp: catalog_def adfs_new_formats_def adfs_old_formats_def dfs_formats_def geo_def)

lemma start_notfound_state [simp]:
  "state (start_notfound m) = ST_NOTFOUND" "count (start_notfound m) = 500"
  by (simp_all add: start_notfound_def)

text \<open>
  Claim C5, as amended.  For read-sector, write-sector and read-address on a catalog
  geometry with otherwise valid parameters, the request begins its transfer exactly
  when the density flag is zero and the geometry is single density, or the flag is
  non-zero and the geometry is double density; in every other case it takes the
  not-found path.  So for every single- or double-density geometry of the catalog there
  is a flag value under which the three requests begin a transfer, and for the
  quad-density geometry (Acorn ADFS F) there is none: under every flag value they take
  the not-found path.
\<close>

theorem density_guard:
  assumes "g \<in> set catalog" and "state m = ST_IDLE" and "drive = 0 \<or> drive = 1"
    and "geometry m (nat drive) = Some g" and "sdf_fp m (nat drive) = Some f"
    and "trk = uint (current_track m (nat drive))" and "trk < uint (tracks g)"
    and "0 \<le> sec" and "sec < uint (sectors_per_track g)"
    and "side = 0 \<or> sides g \<noteq> SIDES_SINGLE"
  shows "(\<exists>m'. sdf_readsector drive sec trk side dens m = Some m' \<and>
               (if (dens = 0 \<and> density g = DENS_SINGLE) \<or> (dens \<noteq> 0 \<and> density g = DENS_DOUBLE)
                then state m' = ST_READSECTOR else state m' = ST_NOTFOUND))
       \<and> (\<exists>m'. sdf_writesector drive sec trk side dens m = Some m' \<and>
               (if (dens = 0 \<and> density g = DENS_SINGLE) \<or> (dens \<noteq> 0 \<and> density g = DENS_DOUBLE)
                then state m' = ST_WRITESECTOR else state m' = ST_NOTFOUND))
       \<and> (\<exists>m'. sdf_readaddress drive trk side dens m = Some m' \<and>
               (if (dens = 0 \<and> density g = DENS_SINGLE) \<or> (dens \<noteq> 0 \<and> density g = DENS_DOUBLE)
                then state m' = ST_READ_ADDR0 else state m' = ST_NOTFOUND))
       \<and> (density g \<noteq> DENS_QUAD \<longrightarrow>
            (\<exists>d. (\<exists>m'. sdf_readsector drive sec trk side d m = Some m' \<and>
                       state m' = ST_READSECTOR) \<and>
                 (\<exists>m'. sdf_writesector drive sec trk side d m = Some m' \<and>
                       state m' = ST_WRITESECTOR) \<and>
                 (\<exists>m'. sdf_readaddress drive trk side d m = Some m' \<and>
                       state m' = ST_READ_ADDR0)))
       \<and> (density g = DENS_QUAD \<longrightarrow>
            (\<forall>d. (\<exists>m'. sdf_readsector drive sec trk side d m = Some m' \<and>
                       state m' = ST_NOTFOUND) \<and>
                 (\<exists>m'. sdf_writesector drive sec trk side d m = Some m' \<and>
                       state m' = ST_NOTFOUND) \<and>
                 (\<exists>m'. sdf_readaddress drive trk side d m = Some m' \<and>
                       state m' = ST_NOTFOUND)))"
proof -
  have ok: "sector_guards m g drive sec trk side d" "track_guards m g drive trk side d"
    if "density_ok d g" for d
    using assms that by (simp_all add: sector_guards_def track_guards_def)
  have bad: "\<not> (\<exists>g'. sector_guards m g' drive sec trk side d)"
    "\<not> (\<exists>g'. track_guards m g' drive trk side d)"
    if "\<not> density_ok d g" for d
    using assms that by (auto simp: sector_guards_def track_guards_def)
  have d0: "0 \<le> drive" using assms(3) by auto
  have rd: "\<exists>m'. sdf_readsector drive sec trk side d m = Some m' \<and>
               (if density_ok d g then state m' = ST_READSECTOR else state m' = ST_NOTFOUND)" for d
  proof (cases "density_ok d g")
    case True
    then show ?thesis using sdf_readsector_ok[OF ok(1)[OF True] assms(5)] by simp
  next
    case False
    then show ?thesis using sector_guard_failure(1)[OF assms(2) d0 bad(1)[OF False]] by simp
  qed
  have wr: "\<exists>m'. sdf_writesector drive sec trk side d m = Some m' \<and>
               (if density_ok d g then state m' = ST_WRITESECTOR else state m' = ST_NOTFOUND)" for d
  proof (cases "density_ok d g")
    case True
    then show ?thesis using sdf_writesector_ok[OF ok(1)[OF True] assms(5)] by simp
  next
    case False
    then show ?thesis using sector_guard_failure(2)[OF assms(2) d0 bad(1)[OF False]] by simp
  qed
  have ra: "\<exists>m'. sdf_readaddress drive trk side d m = Some m' \<and>
               (if density_ok d g then state m' = ST_READ_ADDR0 else state m' = ST_NOTFOUND)" for d
  proof (cases "density_ok d g")
    case True
    then show ?thesis using sdf_readaddress_accepted[OF ok(2)[OF True]] by simp
  next
    case False
    then show ?thesis using track_guard_failure(1)[OF assms(2) d0 bad(2)[OF False]] by simp
  qed
  have ex: "density g \<noteq> DENS_QUAD \<longrightarrow>
            (\<exists>d. (\<exists>m'. sdf_readsector drive sec trk side d m = Some m' \<and>
                       state m' = ST_READSECTOR) \<and>
                 (\<exists>m'. sdf_writesector drive sec trk side d m = Some m' \<and>
                       state m' = ST_WRITESECTOR) \<and>
                 (\<exists>m'. sdf_readaddress drive trk side d m = Some m' \<and>
                       state m' = ST_READ_ADDR0))"
  proof
    assume "density g \<noteq> DENS_QUAD"
    with catalog_density[OF assms(1)] have "density_ok 0 g \<or> density_ok 1 g"
      by (auto simp: density_ok_def)
    then obtain d where d: "density_ok d g" by blast
    from rd[of d] wr[of d] ra[of d] d
    show "\<exists>d. (\<exists>m'. sdf_readsector drive sec trk side d m = Some m' \<and>
                       state m' = ST_READSECTOR) \<and>
                 (\<exists>m'. sdf_writesector drive sec trk side d m = Some m' \<and>
                       state m' = ST_WRITESECTOR) \<and>
                 (\<exists>m'. sdf_readaddress drive trk side d m = Some m' \<and>
                       state m' = ST_READ_ADDR0)"
      by auto
  qed
  have quad: "density g = DENS_QUAD \<longrightarrow>
            (\<forall>d. (\<exists>m'. sdf_readsector drive sec trk side d m = Some m' \<and>
                       state m' = ST_NOTFOUND) \<and>
                 (\<exists>m'. sdf_writesector drive sec trk side d m = Some m' \<and>
                       state m' = ST_NOTFOUND) \<and>
                 (\<exists>m'. sdf_readaddress drive trk side d m = Some m' \<and>
                       state m' = ST_NOTFOUND))"
  proof (intro impI allI)
    fix d assume "density g = DENS_QUAD"
    then have "\<not> density_ok d g" by (simp add: density_ok_def)
    with rd[of d] wr[of d] ra[of d]
    show "(\<exists>m'. sdf_readsector drive sec trk side d m = Some m' \<and>
                       state m' = ST_NOTFOUND) \<and>
                 (\<exists>m'. sdf_writesector drive sec trk side d m = Some m' \<and>
                       state m' = ST_NOTFOUND) \<and>
                 (\<exists>m'. sdf_readaddress drive trk side d m = Some m' \<and>
                       state m' = ST_NOTFOUND)"
      by simp
  qed
  from rd[of dens] wr[of dens] ra[of dens] ex quad show ?thesis
    unfolding density_ok_def by blast
qed


text \<open>The double-density ADFS L geometry under both flag values, and the quad-density ADFS F geometry.\<close>

lemma adfs_f_catalog: "adfs_f \<in> set catalog"
  by (simp add: adfs_f_def catalog_def adfs_new_formats_def)

lemma example_machine_fields:
  "geometry (example_machine g t) k = Some g"
  "sdf_fp (example_machine g t) k = Some (blank_image 0)"
  "current_track (example_machine g t) k = t"
  by (simp_all add: example_machine_def)

theorem density_guard_witness:
  "adfs_l \<in> set catalog \<and> adfs_f \<in> set catalog \<and>
   density adfs_l \<noteq> DENS_QUAD \<and> density adfs_f = DENS_QUAD \<and>
   (\<exists>m'. sdf_readsector 0 3 10 1 1 (example_machine adfs_l 10) = Some m' \<and>
         state m' = ST_READSECTOR) \<and>
   (\<exists>m'. sdf_writesector 0 3 10 1 0 (example_machine adfs_l 10) = Some m' \<and>
         state m' = ST_NOTFOUND) \<and>
   (\<exists>d. \<exists>m'. sdf_readaddress 0 10 1 d (example_machine adfs_l 10) = Some m' \<and>
         state m' = ST_READ_ADDR0) \<and>
   (\<forall>d. \<exists>m'. sdf_readsector 0 0 0 0 d (example_machine adfs_f 0) = Some m' \<and>
         state m' = ST_NOTFOUND)"
proof -
  have l: "density adfs_l = DENS_DOUBLE" "uint (tracks adfs_l) = 80"
    "uint (sectors_per_track adfs_l) = 16" "sides adfs_l = SIDES_INTERLEAVED"
    by (simp_all add: adfs_l_def geo_def)
  have q: "density adfs_f = DENS_QUAD" "uint (tracks adfs_f) = 80"
    "uint (sectors_per_track adfs_f) = 10"
    by (simp_all add: adfs_f_def geo_def)
  have d0: "(0::int) = 0 \<or> (0::int) = 1" by simp
  have a: "\<exists>m'. sdf_readsector 0 3 10 1 1 (example_machine adfs_l 10) = Some m' \<and>
         state m' = ST_READSECTOR"
    using density_guard[where m = "example_machine adfs_l 10" and g = adfs_l and drive = 0
        and f = "blank_image 0" and sec = 3 and trk = 10 and side = 1 and dens = 1]
      adfs_l_catalog l
    by (simp add: example_machine_fields example_machine_start)
  have b: "\<exists>m'. sdf_writesector 0 3 10 1 0 (example_machine adfs_l 10) = Some m' \<and>
         state m' = ST_NOTFOUND"
    using density_guard[where m = "example_machine adfs_l 10" and g = adfs_l and drive = 0
        and f = "blank_image 0" and sec = 3 and trk = 10 and side = 1 and dens = 0]
      adfs_l_catalog l
    by (simp add: example_machine_fields example_machine_start)
  have c: "\<exists>d. \<exists>m'. sdf_readaddress 0 10 1 d (example_machine adfs_l 10) = Some m' \<and>
         state m' = ST_READ_ADDR0"
    using density_guard[where m = "example_machine adfs_l 10" and g = adfs_l and drive = 0
        and f = "blank_image 0" and sec = 3 and trk = 10 and side = 1 and dens = 0]
      adfs_l_catalog l
    by (simp add: example_machine_fields example_machine_start) blast
  have d: "\<forall>d. \<exists>m'. sdf_readsector 0 0 0 0 d (example_machine adfs_f 0) = Some m' \<and>
         state m' = ST_NOTFOUND"
    using density_guard[where m = "example_machine adfs_f 0" and g = adfs_f and drive = 0
        and f = "blank_image 0" and sec = 0 and trk = 0 and side = 0 and dens = 0]
      adfs_f_catalog q
    by (simp add: example_machine_fields example_machine_start)
  from a b c d l(1) q(1) adfs_l_catalog adfs_f_catalog show ?thesis by simp
qed

text \<open>
  The claim as stated fails: with the quad-density ADFS F geometry bound, a read-sector
  of sector 0, track 0, side 0 takes the not-found path under the flag value 0 and
  under the flag value 1, the two values the controller passes.
\<close>

theorem quad_density_counterexample:
  "adfs_f \<in> set catalog \<and>
   sdf_readsector 0 0 0 0 0 (example_machine adfs_f 0)
     = Some (start_notfound (example_machine adfs_f 0)) \<and>
   sdf_readsector 0 0 0 0 1 (example_machine adfs_f 0)
     = Some (start_notfound (example_machine adfs_f 0)) \<and>
   state (start_notfound (example_machine adfs_f 0)) = ST_NOTFOUND \<and>
   state (start_notfound (example_machine adfs_f 0)) \<noteq> ST_READSECTOR"
proof -
  have n: "\<not> (\<exists>g. sector_guards (example_machine adfs_f 0) g 0 0 0 0 d)" for d
    by (auto simp: sector_guards_def example_machine_def density_ok_def adfs_f_def geo_def)
  have z: "(0::int) \<le> 0" by simp
  show ?thesis
    using sector_guard_failure(1)[OF example_machine_start(1) z n] adfs_f_catalog
    by simp
qed

section \<open>C8: data underrun on write\<close>




lemma latched_tick:
  assumes "state m = ST_WRITESECTOR" "uint (sdf_drive m) = 0 \<or> uint (sdf_drive m) = 1"
    "writeprot m (nat (uint (sdf_drive m))) = 0" "written (wd1770 m) \<noteq> 0"
    "sdf_fp m (nat (uint (sdf_drive m))) = Some f"
  shows "\<exists>m'. sdf_tick m = Some m' \<and> count m' = count m - 1 \<and>
           sdf_fp m' = (sdf_fp m)(nat (uint (sdf_drive m)) := Some (putc (uint (data (wd1770 m))) f)) \<and>
           state m' = (if count m - 1 = 0 then ST_IDLE else ST_WRITESECTOR) \<and>
           written (wd1770 m') = 0 \<and>
           trace m' = trace m @ [Fdc_getdata (if count m - 1 = 0 then 1 else 0) (uint (data (wd1770 m)))]
                      @ (if count m - 1 = 0 then [Fdc_finishread] else []) \<and>
           sdf_drive m' = sdf_drive m \<and> writeprot m' = writeprot m \<and> geometry m' = geometry m \<and>
           current_track m' = current_track m"
proof -
  have ne: "uint (data (wd1770 m)) \<noteq> -1"
    using uint_ge_0[of "data (wd1770 m)"] by linarith
  show ?thesis
    using assms ne
    by (simp add: sdf_tick_def arr_in arr_upd_in fdc_getdata_def wd1770_getdata_def Let_def
        emit_def stream_def set_stream_def fdc_finishread_def wd1770_finishread_def)
qed














section \<open>C2: a sector written is the sector read back\<close>

lemma putc_props:
  "pos (putc (uint b) f) = Suc (pos f)"
  "length (contents (putc (uint b) f)) \<ge> Suc (pos f)"
  "length (contents (putc (uint b) f)) \<ge> length (contents f)"
  "contents (putc (uint b) f) ! pos f = b"
  "i < pos f \<Longrightarrow> i < length (contents f) \<Longrightarrow> contents (putc (uint b) f) ! i = contents f ! i"
  by (auto simp: putc_def Let_def nth_append)

lemma puts_keeps:
  "i < pos f \<Longrightarrow> i < length (contents f) \<Longrightarrow>
     contents (puts bs f) ! i = contents f ! i \<and> length (contents f) \<le> length (contents (puts bs f))"
proof (induction bs arbitrary: f)
  case Nil
  then show ?case by simp
next
  case (Cons b bs)
  have "i < pos (putc (uint b) f)" "i < length (contents (putc (uint b) f))"
    using Cons.prems putc_props(1,3)[where b = b and f = f] by auto
  from Cons.IH[OF this] putc_props(3,5)[where b = b and f = f] Cons.prems show ?case by auto
qed

lemma puts_written:
  "pos (puts bs f) = pos f + length bs \<and>
   (bs \<noteq> [] \<longrightarrow> pos f + length bs \<le> length (contents (puts bs f))) \<and>
   (\<forall>i < length bs. contents (puts bs f) ! (pos f + i) = bs ! i)"
proof (induction bs arbitrary: f)
  case Nil
  then show ?case by simp
next
  case (Cons b bs)
  let ?f1 = "putc (uint b) f"
  note ih = Cons.IH[of ?f1]
  have p: "pos ?f1 = Suc (pos f)" "Suc (pos f) \<le> length (contents ?f1)"
    "contents ?f1 ! pos f = b"
    using putc_props(1,2,4)[where b = b and f = f] by auto
  have k: "contents (puts bs ?f1) ! pos f = b \<and> length (contents ?f1) \<le> length (contents (puts bs ?f1))"
    using puts_keeps[of "pos f" ?f1 bs] p by auto
  have a: "pos (puts (b # bs) f) = pos f + length (b # bs)" using ih p by simp
  have l: "pos f + length (b # bs) \<le> length (contents (puts (b # bs) f))"
  proof (cases "bs = []")
    case True
    then show ?thesis using p by simp
  next
    case False
    then show ?thesis using ih p by simp
  qed
  have n: "contents (puts (b # bs) f) ! (pos f + i) = (b # bs) ! i" if "i < length (b # bs)" for i
  proof (cases i)
    case 0
    then show ?thesis using k by simp
  next
    case (Suc j)
    then have "j < length bs" using that by simp
    with ih have "contents (puts bs ?f1) ! (pos ?f1 + j) = bs ! j" by blast
    then show ?thesis using Suc p by simp
  qed
  from a l n show ?case by blast
qed

lemma count_pred:
  fixes c :: u16
  assumes "unat c = Suc k"
  shows "unat (c - 1) = k" "(c - 1 = 0) = (k = 0)"
proof -
  have "c \<noteq> 0" using assms by auto
  then show u: "unat (c - 1) = k" using assms by (simp add: unat_minus_one)
  show "(c - 1 = 0) = (k = 0)" using u by (metis unat_0 unat_eq_0)
qed

lemma write_phase:
  assumes "state m = ST_WRITESECTOR" "uint (sdf_drive m) = 0 \<or> uint (sdf_drive m) = 1"
    "writeprot m (nat (uint (sdf_drive m))) = 0" "sdf_fp m (nat (uint (sdf_drive m))) = Some f"
    "unat (count m) = length bs" "bs \<noteq> []"
  shows "\<exists>m'. write_bytes bs m = Some m' \<and> state m' = ST_IDLE \<and>
           sdf_fp m' = (sdf_fp m)(nat (uint (sdf_drive m)) := Some (puts bs f)) \<and>
           geometry m' = geometry m \<and> current_track m' = current_track m \<and>
           writeprot m' = writeprot m"
  using assms
proof (induction bs arbitrary: m f)
  case Nil
  then show ?case by simp
next
  case (Cons b bs)
  define m2 where "m2 = m\<lparr>nmi := nmi m AND NOT 2,
                wd1770 := (wd1770 m)\<lparr>status := status (wd1770 m) AND NOT 2,
                                       data := b, written := 1\<rparr>\<rparr>"
  have w: "write_1770 3 b m = Some m2" by (simp add: write_1770_def m2_def)
  have q: "state m2 = ST_WRITESECTOR" "uint (sdf_drive m2) = 0 \<or> uint (sdf_drive m2) = 1"
    "writeprot m2 (nat (uint (sdf_drive m2))) = 0" "written (wd1770 m2) \<noteq> 0"
    "sdf_fp m2 (nat (uint (sdf_drive m2))) = Some f"
    and q': "count m2 = count m" "sdf_drive m2 = sdf_drive m" "data (wd1770 m2) = b"
    "sdf_fp m2 = sdf_fp m" "geometry m2 = geometry m" "current_track m2 = current_track m"
    "writeprot m2 = writeprot m"
    using Cons.prems by (simp_all add: m2_def)
  from latched_tick[OF q] obtain m3 where m3: "sdf_tick m2 = Some m3"
    "count m3 = count m2 - 1"
    "sdf_fp m3 = (sdf_fp m2)(nat (uint (sdf_drive m2)) := Some (putc (uint (data (wd1770 m2))) f))"
    "state m3 = (if count m2 - 1 = 0 then ST_IDLE else ST_WRITESECTOR)"
    "sdf_drive m3 = sdf_drive m2" "writeprot m3 = writeprot m2" "geometry m3 = geometry m2"
    "current_track m3 = current_track m2"
    by blast
  have u: "unat (count m) = Suc (length bs)" using Cons.prems(5) by simp
  note cp = count_pred[OF u]
  have step: "write_bytes (b # bs) m = write_bytes bs m3" using w m3(1) by simp
  show ?case
  proof (cases "bs = []")
    case True
    then have "state m3 = ST_IDLE" using m3(4) cp(2) q'(1) by simp
    then show ?thesis using step True m3 q' by (intro exI[of _ m3]) simp
  next
    case False
    then have s3: "state m3 = ST_WRITESECTOR" using m3(4) cp(2) q'(1) by simp
    have d3: "uint (sdf_drive m3) = 0 \<or> uint (sdf_drive m3) = 1"
      using m3(5) q'(2) Cons.prems(2) by simp
    have w3: "writeprot m3 (nat (uint (sdf_drive m3))) = 0"
      using m3(5,6) q'(2,7) Cons.prems(3) by simp
    have f3: "sdf_fp m3 (nat (uint (sdf_drive m3))) = Some (putc (uint b) f)"
      using m3(3,5) q'(2,3) by simp
    have c3: "unat (count m3) = length bs" using m3(2) q'(1) cp(1) by simp
    from Cons.IH[OF s3 d3 w3 f3 c3 False] obtain m' where
      "write_bytes bs m3 = Some m'" "state m' = ST_IDLE"
      "sdf_fp m' = (sdf_fp m3)(nat (uint (sdf_drive m3)) := Some (puts bs (putc (uint b) f)))"
      "geometry m' = geometry m3" "current_track m' = current_track m3"
      "writeprot m' = writeprot m3"
      by blast
    then show ?thesis using step m3 q' by (intro exI[of _ m']) simp
  qed
qed

lemma read_tick:
  assumes "state m = ST_READSECTOR" "uint (sdf_drive m) = 0 \<or> uint (sdf_drive m) = 1"
    "sdf_fp m (nat (uint (sdf_drive m))) = Some f" "pos f < length (contents f)"
  shows "\<exists>m'. sdf_tick m = Some m' \<and> count m' = count m - 1 \<and>
           sdf_fp m' = (sdf_fp m)(nat (uint (sdf_drive m)) := Some (f\<lparr>pos := pos f + 1\<rparr>)) \<and>
           state m' = (if count m - 1 = 0 then ST_IDLE else ST_READSECTOR) \<and>
           trace m' = trace m @ [Fdc_data (contents f ! pos f)]
                      @ (if count m - 1 = 0 then [Fdc_finishread] else []) \<and>
           sdf_drive m' = sdf_drive m"
  using assms
  by (simp add: sdf_tick_def arr_in arr_upd_in stream_def set_stream_def getc_def Let_def
      callback_defs)

lemma read_phase:
  assumes "state m = ST_READSECTOR" "uint (sdf_drive m) = 0 \<or> uint (sdf_drive m) = 1"
    "sdf_fp m (nat (uint (sdf_drive m))) = Some f" "unat (count m) = n" "0 < n"
    "pos f + n \<le> length (contents f)"
  shows "\<exists>m'. iterate n sdf_tick m = Some m' \<and> state m' = ST_IDLE \<and>
           trace m' = trace m @ map (\<lambda>i. Fdc_data (contents f ! (pos f + i))) [0..<n]
                      @ [Fdc_finishread]"
  using assms
proof (induction n arbitrary: m f)
  case 0
  then show ?case by simp
next
  case (Suc k)
  have lt: "pos f < length (contents f)" using Suc.prems(6) by simp
  from read_tick[OF Suc.prems(1-3) lt] obtain m1 where m1: "sdf_tick m = Some m1"
    "count m1 = count m - 1"
    "sdf_fp m1 = (sdf_fp m)(nat (uint (sdf_drive m)) := Some (f\<lparr>pos := pos f + 1\<rparr>))"
    "state m1 = (if count m - 1 = 0 then ST_IDLE else ST_READSECTOR)"
    "trace m1 = trace m @ [Fdc_data (contents f ! pos f)]
                      @ (if count m - 1 = 0 then [Fdc_finishread] else [])"
    "sdf_drive m1 = sdf_drive m"
    by blast
  note cp = count_pred[OF Suc.prems(4)]
  have mp: "map (\<lambda>i. Fdc_data (contents f ! (pos f + i))) [0..<Suc k] =
            Fdc_data (contents f ! pos f) # map (\<lambda>i. Fdc_data (contents f ! (Suc (pos f) + i))) [0..<k]"
    by (simp add: upt_conv_Cons map_Suc_upt[symmetric] del: upt_Suc)
  show ?case
  proof (cases "k = 0")
    case True
    then show ?thesis using m1 cp by simp
  next
    case False
    let ?f1 = "f\<lparr>pos := pos f + 1\<rparr>"
    have s1: "state m1 = ST_READSECTOR" using m1(4) cp(2) False by simp
    have d1: "uint (sdf_drive m1) = 0 \<or> uint (sdf_drive m1) = 1" using m1(6) Suc.prems(2) by simp
    have f1: "sdf_fp m1 (nat (uint (sdf_drive m1))) = Some ?f1" using m1(3,6) by simp
    have c1: "unat (count m1) = k" using m1(2) cp(1) by simp
    have k0: "0 < k" using False by simp
    have b1: "pos ?f1 + k \<le> length (contents ?f1)" using Suc.prems(6) by simp
    from Suc.IH[OF s1 d1 f1 c1 k0 b1] obtain m' where
      "iterate k sdf_tick m1 = Some m'" "state m' = ST_IDLE"
      "trace m' = trace m1 @ map (\<lambda>i. Fdc_data (contents ?f1 ! (pos ?f1 + i))) [0..<k]
                      @ [Fdc_finishread]"
      by blast
    then show ?thesis using m1 cp False mp by simp
  qed
qed

text \<open>
  Claim C2.  Let sector, track, side and density flag pass the guards on a drive with a
  geometry bound (sector size not 0, as for every catalog entry) and an open stream,
  not write-protected.  A write-sector is then accepted; supplying a sequence of
  sector-size bytes, one data register write before each divided tick, completes it
  and leaves the backend idle; a read-sector of the same sector, track and side is then
  accepted, and its sector-size divided ticks hand exactly the bytes written, in the
  order written, to the data-ready callback, followed by the finished callback.
\<close>

theorem sector_round_trip:
  assumes gd: "sector_guards m g drive sec trk side dens"
    and fp: "sdf_fp m (nat drive) = Some f"
    and wp: "writeprot m (nat drive) = 0"
    and len: "length bs = unat (sector_size g)" and ne: "sector_size g \<noteq> 0"
  shows "\<exists>m1 m2 m3 m4.
           sdf_writesector drive sec trk side dens m = Some m1 \<and> state m1 = ST_WRITESECTOR \<and>
           write_bytes bs m1 = Some m2 \<and> state m2 = ST_IDLE \<and>
           sdf_readsector drive sec trk side dens m2 = Some m3 \<and> state m3 = ST_READSECTOR \<and>
           iterate (length bs) sdf_tick m3 = Some m4 \<and> state m4 = ST_IDLE \<and>
           trace m4 = trace m3 @ map Fdc_data bs @ [Fdc_finishread]"
proof -
  from gd have d: "drive = 0 \<or> drive = 1" by (simp add: sector_guards_def)
  have ud: "uint (word_of_int drive :: u8) = drive" by (rule drive_word[OF d])
  define off where "off = unat (io_seek_offset g (word_of_int sec) (word_of_int trk) (word_of_int side))"
  define f1 where "f1 = fseek_set off f"
  define m1 where "m1 = m\<lparr>sdf_fp := (sdf_fp m)(nat drive := Some f1),
                   count := sector_size g, sdf_drive := word_of_int drive,
                   sdf_side := word_of_int side, sdf_track := word_of_int trk,
                   sdf_sector := word_of_int sec, sdf_time := -20,
                   state := ST_WRITESECTOR\<rparr>"
  have w: "sdf_writesector drive sec trk side dens m = Some m1"
    unfolding m1_def f1_def off_def by (rule sdf_writesector_ok[OF gd fp])
  have bne: "bs \<noteq> []" using len ne by (auto simp: unat_eq_0)
  have p1: "state m1 = ST_WRITESECTOR" "uint (sdf_drive m1) = 0 \<or> uint (sdf_drive m1) = 1"
    "writeprot m1 (nat (uint (sdf_drive m1))) = 0" "sdf_fp m1 (nat (uint (sdf_drive m1))) = Some f1"
    "unat (count m1) = length bs"
    using d wp len by (simp_all add: m1_def ud)
  from write_phase[OF p1 bne] obtain m2 where m2: "write_bytes bs m1 = Some m2"
    "state m2 = ST_IDLE"
    "sdf_fp m2 = (sdf_fp m1)(nat (uint (sdf_drive m1)) := Some (puts bs f1))"
    "geometry m2 = geometry m1" "current_track m2 = current_track m1"
    by blast
  have g2: "sector_guards m2 g drive sec trk side dens"
    using gd m2(2,4,5) by (simp add: sector_guards_def m1_def)
  have f2: "sdf_fp m2 (nat drive) = Some (puts bs f1)"
    using m2(3) by (simp add: m1_def ud)
  define f3 where "f3 = fseek_set off (puts bs f1)"
  define m3 where "m3 = m2\<lparr>sdf_fp := (sdf_fp m2)(nat drive := Some f3),
                   count := sector_size g, sdf_drive := word_of_int drive,
                   state := ST_READSECTOR\<rparr>"
  have r: "sdf_readsector drive sec trk side dens m2 = Some m3"
    unfolding m3_def f3_def off_def by (rule sdf_readsector_ok[OF g2 f2])
  have pf1: "pos f1 = off" by (simp add: f1_def fseek_set_def)
  from puts_written[of bs f1] bne pf1
  have pw: "off + length bs \<le> length (contents (puts bs f1))"
    "\<forall>i < length bs. contents (puts bs f1) ! (off + i) = bs ! i"
    by auto
  have lp: "0 < length bs" using bne by simp
  have p3: "state m3 = ST_READSECTOR" "uint (sdf_drive m3) = 0 \<or> uint (sdf_drive m3) = 1"
    "sdf_fp m3 (nat (uint (sdf_drive m3))) = Some f3" "unat (count m3) = length bs"
    "0 < length bs" "pos f3 + length bs \<le> length (contents f3)"
    using d len[symmetric] lp pw(1) by (simp_all add: m3_def ud f3_def fseek_set_def)
  from read_phase[OF p3] obtain m4 where m4: "iterate (length bs) sdf_tick m3 = Some m4"
    "state m4 = ST_IDLE"
    "trace m4 = trace m3 @ map (\<lambda>i. Fdc_data (contents f3 ! (pos f3 + i))) [0..<length bs]
                      @ [Fdc_finishread]"
    by blast
  have "map (\<lambda>i. Fdc_data (contents f3 ! (pos f3 + i))) [0..<length bs]
        = map (\<lambda>i. Fdc_data (bs ! i)) [0..<length bs]"
    using pw(2) by (simp add: f3_def fseek_set_def)
  also have "\<dots> = map Fdc_data (map (\<lambda>i. bs ! i) [0..<length bs])" by simp
  also have "\<dots> = map Fdc_data bs" by (simp only: map_nth)
  finally have tr: "trace m4 = trace m3 @ map Fdc_data bs @ [Fdc_finishread]"
    using m4(3) by simp
  have "state m1 = ST_WRITESECTOR" "state m3 = ST_READSECTOR" by (simp_all add: m1_def m3_def)
  with w m2(1,2) r m4(1,2) tr show ?thesis by blast
qed

text \<open>Sector 9 of track 39, side 0, of a single-sided DFS image, written with the bytes 0, 1, ..., 255.\<close>

lemma dfs_sector_size: "sector_size dfs_single80 = 256"
  by (simp add: dfs_single80_def geo_def)

theorem sector_round_trip_witness:
  "sector_guards (example_machine dfs_single80 39) dfs_single80 0 9 39 0 0 \<and>
   writeprot (example_machine dfs_single80 39) 0 = 0 \<and>
   length (map of_nat [0..<256] :: u8 list) = unat (sector_size dfs_single80) \<and>
   (\<exists>m1 m2 m3 m4.
      sdf_writesector 0 9 39 0 0 (example_machine dfs_single80 39) = Some m1 \<and>
      write_bytes (map of_nat [0..<256]) m1 = Some m2 \<and> state m2 = ST_IDLE \<and>
      sdf_readsector 0 9 39 0 0 m2 = Some m3 \<and>
      iterate 256 sdf_tick m3 = Some m4 \<and> state m4 = ST_IDLE \<and>
      trace m4 = trace m3 @ map Fdc_data (map of_nat [0..<256]) @ [Fdc_finishread])"
proof -
  have gd: "sector_guards (example_machine dfs_single80 39) dfs_single80 0 9 39 0 0"
    by (simp add: sector_guards_def example_machine_def initial_machine_def dfs_single80_def
        geo_def density_ok_def)
  have wp: "writeprot (example_machine dfs_single80 39) (nat 0) = 0"
    by (simp add: example_machine_def initial_machine_def)
  have len: "length (map of_nat [0..<256] :: u8 list) = unat (sector_size dfs_single80)"
    by (simp add: dfs_sector_size)
  have ne: "sector_size dfs_single80 \<noteq> 0" by (simp add: dfs_sector_size)
  from sector_round_trip[OF gd example_machine_fp wp len ne]
  obtain m1 m2 m3 m4 where
    "sdf_writesector 0 9 39 0 0 (example_machine dfs_single80 39) = Some m1"
    "write_bytes (map of_nat [0..<256]) m1 = Some m2" "state m2 = ST_IDLE"
    "sdf_readsector 0 9 39 0 0 m2 = Some m3"
    "iterate (length (map of_nat [0..<256] :: u8 list)) sdf_tick m3 = Some m4" "state m4 = ST_IDLE"
    "trace m4 = trace m3 @ map Fdc_data (map of_nat [0..<256]) @ [Fdc_finishread]"
    by blast
  then have "\<exists>m1 m2 m3 m4.
      sdf_writesector 0 9 39 0 0 (example_machine dfs_single80 39) = Some m1 \<and>
      write_bytes (map of_nat [0..<256]) m1 = Some m2 \<and> state m2 = ST_IDLE \<and>
      sdf_readsector 0 9 39 0 0 m2 = Some m3 \<and>
      iterate 256 sdf_tick m3 = Some m4 \<and> state m4 = ST_IDLE \<and>
      trace m4 = trace m3 @ map Fdc_data (map of_nat [0..<256]) @ [Fdc_finishread]"
    by (auto simp del: iterate.simps upt_Suc)
  with gd wp len show ?thesis by simp
qed

end
